theory Spec2Isabelle
  imports Main "HOL-Library.Char_ord" "HOL-Library.List_Lexorder" "HOL-Library.Sublist"
    "HOL-Library.Word"
begin


section \<open>Text, error objects and abrupt completion\<close>

text \<open>
  Wide strings (\<^verbatim>\<open>std::wstring\<close>, \<^verbatim>\<open>BSTR\<close>, \<^verbatim>\<open>hstring\<close>) are modelled as \<^typ>\<open>string\<close>, one
  character per code unit. \<^verbatim>\<open>int64_t\<close> values (adapter LUIDs) are never computed with, only
  stored, compared and printed, and are modelled as \<^typ>\<open>int\<close>.
\<close>

definition backslash :: char where
  "backslash = CHR 0x5C"

text \<open>\<^verbatim>\<open>std::to_wstring\<close> of an unsigned and of a signed integer: decimal digits.\<close>

fun to_wstring :: "nat \<Rightarrow> string" where
  "to_wstring n = (if n < 10 then [''0123456789'' ! n]
     else to_wstring (n div 10) @ [''0123456789'' ! (n mod 10)])"

definition to_wstring_signed :: "int \<Rightarrow> string" where
  "to_wstring_signed i = (if i < 0 then CHR ''-'' # to_wstring (nat (- i)) else to_wstring (nat i))"

text \<open>
  The format specification \<^verbatim>\<open>{:0>NX}\<close> of the fmt library: upper-case hexadecimal, right
  aligned in at least \<open>N\<close> columns, filled with the character 0.
\<close>

fun hex_digits :: "nat \<Rightarrow> string" where
  "hex_digits n = (if n < 16 then [''0123456789ABCDEF'' ! n]
     else hex_digits (n div 16) @ [''0123456789ABCDEF'' ! (n mod 16)])"

definition format_hex :: "nat \<Rightarrow> nat \<Rightarrow> string" where
  "format_hex width n = replicate (width - length (hex_digits n)) (CHR ''0'') @ hex_digits n"

text \<open>
  Modelled from the spec: \<^verbatim>\<open>std::filesystem::path::filename\<close>, which belongs to the C++
  standard library and not to the repository; the spec calls its result "the final path
  segment" of the path. Both separators of the platform end a segment.
\<close>

definition is_slash :: "char \<Rightarrow> bool" where
  "is_slash c = (c = backslash \<or> c = CHR ''/'')"

definition filename :: "string \<Rightarrow> string" where
  "filename p = rev (takeWhile (\<lambda>c. \<not> is_slash c) (rev p))"

text \<open>\<^verbatim>\<open>std::wstring::find(needle) != npos\<close>.\<close>

fun contains :: "string \<Rightarrow> string \<Rightarrow> bool" where
  "contains needle [] = (needle = [])"
| "contains needle (c # cs) = (prefix needle (c # cs) \<or> contains needle cs)"

text \<open>The class \<^verbatim>\<open>DeviceDiscoveryError\<close> of ErrorHandling.h.\<close>

record DeviceDiscoveryError =
  message :: string
  file_name :: string
  function_name :: string
  line_number :: nat

text \<open>
  The macro \<^verbatim>\<open>CreateError(message)\<close> fills in the file, the function and the line of the place
  where it is written; the model passes them as a triple.
\<close>

type_synonym site = "string \<times> string \<times> nat"

definition CreateError :: "string \<Rightarrow> site \<Rightarrow> DeviceDiscoveryError" where
  "CreateError msg at =
     \<lparr>message = msg, file_name = fst at, function_name = fst (snd at),
      line_number = snd (snd at)\<rparr>"

definition Wrap :: "DeviceDiscoveryError \<Rightarrow> string \<Rightarrow> DeviceDiscoveryError" where
  "Wrap inner msg =
     \<lparr>message = msg @ '': '' @ message inner, file_name = file_name inner,
      function_name = function_name inner, line_number = line_number inner\<rparr>"

definition Pretty :: "DeviceDiscoveryError \<Rightarrow> string" where
  "Pretty e = message e @ '' ['' @ (filename (file_name e) @ '':'' @ to_wstring (line_number e))
     @ '' '' @ function_name e @ '']''"

text \<open>
  What leaves a function other than by its return: one of the C++ exceptions that occur in
  the program (\<^verbatim>\<open>DeviceDiscoveryError\<close>; \<^verbatim>\<open>std::invalid_argument\<close> and \<^verbatim>\<open>std::out_of_range\<close>, which
  \<^verbatim>\<open>std::stoll\<close> throws and which derive from \<^verbatim>\<open>std::logic_error\<close>; \<^verbatim>\<open>std::runtime_error\<close>, for
  which \<^verbatim>\<open>DiscoverDevices\<close> has a handler), or a read through a null or out-of-range pointer,
  which no handler of the program intercepts.
\<close>

datatype abrupt =
    Thrown DeviceDiscoveryError
  | invalid_argument
  | out_of_range
  | runtime_error string
  | undefined_behaviour

text \<open>
  A call into the platform either fails, and then the status check of the program
  (\<^verbatim>\<open>CheckHresult\<close>, \<^verbatim>\<open>CheckWin32\<close>, \<^verbatim>\<open>CheckNtStatus\<close>, \<^verbatim>\<open>CatchHresult\<close>) yields an error object
  with the message text of the failure, or it succeeds and delivers its output. The text of
  a failure is the platform's and is not empty (an error object counts as an error when its
  message is not empty).
\<close>

datatype 'a reply = Failed string | Done 'a

text \<open>
  The recurring pattern \<^verbatim>\<open>error = CheckHresult(call); if (error) { throw error.Wrap(text); }\<close>
  followed by the rest of the function, which uses the output of the call.
\<close>

definition check_throw :: "'a reply \<Rightarrow> site \<Rightarrow> string \<Rightarrow> ('a \<Rightarrow> abrupt + 'b) \<Rightarrow> abrupt + 'b" where
  "check_throw r at text rest =
     (case r of
        Failed t \<Rightarrow> Inl (Thrown (Wrap (CreateError t at) text))
      | Done v \<Rightarrow> rest v)"

section \<open>Adapters and their enumeration (Adapter.h, DeviceFilter.h, AdapterEnumeration.cpp)\<close>

record DXCoreHardwareID =
  vendorID :: "32 word"
  deviceID :: "32 word"
  subSysID :: "32 word"
  revision :: "32 word"

record Adapter =
  InstanceLuid :: int
  HardwareID :: DXCoreHardwareID
  IsHardware :: bool
  IsIntegrated :: bool
  IsDetachable :: bool
  SupportsDisplay :: bool
  SupportsCompute :: bool

text \<open>
  The default constructor of \<^verbatim>\<open>Adapter\<close>. It leaves \<^verbatim>\<open>HardwareID\<close> uninitialised; the program
  never reads the hardware identifier of a default-constructed adapter, and the model puts
  zeros there.
\<close>

definition Adapter_default :: Adapter where
  "Adapter_default =
     \<lparr>InstanceLuid = 0,
      HardwareID = \<lparr>vendorID = 0, deviceID = 0, subSysID = 0, revision = 0\<rparr>,
      IsHardware = False, IsIntegrated = False, IsDetachable = False,
      SupportsDisplay = False, SupportsCompute = False\<rparr>"

text \<open>
  \<^verbatim>\<open>enum class DeviceFilter : int\<close>. The C interface casts any \<^verbatim>\<open>int\<close> to it, so a value
  without a name is possible; \<open>UnnamedFilter\<close> stands for those.
\<close>

datatype DeviceFilter =
    AllDevices
  | DisplaySupported
  | ComputeSupported
  | DisplayOnly
  | ComputeOnly
  | DisplayAndCompute
  | UnnamedFilter int

datatype attribute =
    DXCORE_ADAPTER_ATTRIBUTE_D3D11_GRAPHICS
  | DXCORE_ADAPTER_ATTRIBUTE_D3D12_GRAPHICS
  | DXCORE_ADAPTER_ATTRIBUTE_D3D12_CORE_COMPUTE

fun attribute_name :: "attribute \<Rightarrow> string" where
  "attribute_name DXCORE_ADAPTER_ATTRIBUTE_D3D11_GRAPHICS = ''DXCORE_ADAPTER_ATTRIBUTE_D3D11_GRAPHICS''"
| "attribute_name DXCORE_ADAPTER_ATTRIBUTE_D3D12_GRAPHICS = ''DXCORE_ADAPTER_ATTRIBUTE_D3D12_GRAPHICS''"
| "attribute_name DXCORE_ADAPTER_ATTRIBUTE_D3D12_CORE_COMPUTE = ''DXCORE_ADAPTER_ATTRIBUTE_D3D12_CORE_COMPUTE''"

text \<open>
  The adapter enumeration backend (DXCore). An \<^verbatim>\<open>IDXCoreAdapter\<close> is what its methods
  answer; an \<^verbatim>\<open>IDXCoreAdapterList\<close> is the sequence of answers of \<^verbatim>\<open>GetAdapter(index)\<close>, its
  length being \<^verbatim>\<open>GetAdapterCount()\<close>.
\<close>

record IDXCoreAdapter =
  GetProperty_InstanceLuid :: "int reply"
  GetProperty_HardwareID :: "DXCoreHardwareID reply"
  GetProperty_IsHardware :: "bool reply"
  GetProperty_IsIntegrated :: "bool reply"
  GetProperty_IsDetachable :: "bool reply"
  IsAttributeSupported :: "attribute \<Rightarrow> bool"

type_synonym IDXCoreAdapterList = "IDXCoreAdapter reply list"

record DXCore =
  DXCoreCreateAdapterFactory :: "unit reply"
  CreateAdapterList :: "attribute \<Rightarrow> IDXCoreAdapterList reply"

text \<open>
  \<^verbatim>\<open>std::map\<close> as an association list in ascending key order. \<^verbatim>\<open>std::map::insert\<close> leaves
  the container as it is when the key is already present.
\<close>

fun map_insert :: "'k::linorder \<times> 'v \<Rightarrow> ('k \<times> 'v) list \<Rightarrow> ('k \<times> 'v) list" where
  "map_insert (k, v) [] = [(k, v)]"
| "map_insert (k, v) ((k', v') # m) =
     (if k = k' then (k', v') # m
      else if k < k' then (k, v) # (k', v') # m
      else (k', v') # map_insert (k, v) m)"

text \<open>
  The class \<^verbatim>\<open>AdapterEnumeration\<close>. A null \<^verbatim>\<open>com_ptr\<close> in \<^verbatim>\<open>adapterLists\<close> is \<open>None\<close>. The factory
  pointer is not null once the constructor has returned and is not part of the state.
\<close>

record AdapterEnumeration =
  adapterLists :: "IDXCoreAdapterList option list"
  uniqueAdapters :: "(int \<times> Adapter) list"

definition AdapterEnumeration_ctor :: "DXCore \<Rightarrow> abrupt + AdapterEnumeration" where
  "AdapterEnumeration_ctor X =
     check_throw (DXCoreCreateAdapterFactory X)
       (''AdapterEnumeration.cpp'', ''AdapterEnumeration::AdapterEnumeration'', 10)
       ''DXCoreCreateAdapterFactory failed''
       (\<lambda>_. Inr \<lparr>adapterLists = [], uniqueAdapters = []\<rparr>)"

definition ExtractAdapterDetails :: "IDXCoreAdapter \<Rightarrow> abrupt + Adapter" where
  "ExtractAdapterDetails adapter =
     check_throw (GetProperty_InstanceLuid adapter)
       (''AdapterEnumeration.cpp'', ''AdapterEnumeration::ExtractAdapterDetails'', 135)
       ''IDXCoreAdapter::GetProperty() failed for property InstanceLuid'' (\<lambda>instanceLuid.
     check_throw (GetProperty_HardwareID adapter)
       (''AdapterEnumeration.cpp'', ''AdapterEnumeration::ExtractAdapterDetails'', 142)
       ''IDXCoreAdapter::GetProperty() failed for property HardwareID'' (\<lambda>hardwareID.
     check_throw (GetProperty_IsHardware adapter)
       (''AdapterEnumeration.cpp'', ''AdapterEnumeration::ExtractAdapterDetails'', 148)
       ''IDXCoreAdapter::GetProperty() failed for property IsHardware'' (\<lambda>isHardware.
     check_throw (GetProperty_IsIntegrated adapter)
       (''AdapterEnumeration.cpp'', ''AdapterEnumeration::ExtractAdapterDetails'', 154)
       ''IDXCoreAdapter::GetProperty() failed for property IsIntegrated'' (\<lambda>isIntegrated.
     check_throw (GetProperty_IsDetachable adapter)
       (''AdapterEnumeration.cpp'', ''AdapterEnumeration::ExtractAdapterDetails'', 160)
       ''IDXCoreAdapter::GetProperty() failed for property IsDetachable'' (\<lambda>isDetachable.
     Inr \<lparr>InstanceLuid = instanceLuid,
          HardwareID = hardwareID,
          IsHardware = isHardware,
          IsIntegrated = isIntegrated,
          IsDetachable = isDetachable,
          SupportsDisplay =
            (IsAttributeSupported adapter DXCORE_ADAPTER_ATTRIBUTE_D3D11_GRAPHICS \<or>
             IsAttributeSupported adapter DXCORE_ADAPTER_ATTRIBUTE_D3D12_GRAPHICS),
          SupportsCompute =
            IsAttributeSupported adapter DXCORE_ADAPTER_ATTRIBUTE_D3D12_GRAPHICS\<rparr>)))))"

text \<open>
  The macro \<^verbatim>\<open>ENUMERATE_ADAPTERS(attribute)\<close>: a null pointer is pushed first and receives the
  list; when the call fails the null entry stays in \<^verbatim>\<open>adapterLists\<close> and the error is thrown.
\<close>

definition ENUMERATE_ADAPTERS ::
  "DXCore \<Rightarrow> attribute \<Rightarrow> AdapterEnumeration \<Rightarrow> abrupt option \<times> AdapterEnumeration" where
  "ENUMERATE_ADAPTERS X attr en =
     (case CreateAdapterList X attr of
        Failed t \<Rightarrow>
          (Some (Thrown (Wrap
             (CreateError t (''AdapterEnumeration.cpp'', ''AdapterEnumeration::EnumerateAdapters'', 34))
             (''IDXCoreAdapterFactory::CreateAdapterList() failed for attribute '' @ attribute_name attr))),
           en\<lparr>adapterLists := adapterLists en @ [None]\<rparr>)
      | Done l \<Rightarrow> (None, en\<lparr>adapterLists := adapterLists en @ [Some l]\<rparr>))"

text \<open>The three conditional uses of the macro, in the order of the source.\<close>

definition create_lists ::
  "DXCore \<Rightarrow> DeviceFilter \<Rightarrow> AdapterEnumeration \<Rightarrow> abrupt option \<times> AdapterEnumeration" where
  "create_lists X flt en =
     (case (if flt \<noteq> ComputeOnly \<and> flt \<noteq> DisplayAndCompute
            then ENUMERATE_ADAPTERS X DXCORE_ADAPTER_ATTRIBUTE_D3D11_GRAPHICS en else (None, en)) of
        (Some e, en1) \<Rightarrow> (Some e, en1)
      | (None, en1) \<Rightarrow>
     (case (if flt \<noteq> ComputeOnly
            then ENUMERATE_ADAPTERS X DXCORE_ADAPTER_ATTRIBUTE_D3D12_GRAPHICS en1 else (None, en1)) of
        (Some e, en2) \<Rightarrow> (Some e, en2)
      | (None, en2) \<Rightarrow>
     (if flt \<noteq> DisplayOnly
      then ENUMERATE_ADAPTERS X DXCORE_ADAPTER_ATTRIBUTE_D3D12_CORE_COMPUTE en2 else (None, en2))))"

text \<open>The three filtering conditions of the loop body, each a \<^verbatim>\<open>continue\<close> in the source.\<close>

definition filter_mismatch :: "DeviceFilter \<Rightarrow> Adapter \<Rightarrow> bool" where
  "filter_mismatch flt details =
     ((flt = DisplayOnly \<and> SupportsCompute details) \<or>
      (flt = ComputeOnly \<and> SupportsDisplay details) \<or>
      (flt = DisplayAndCompute \<and> (\<not> SupportsDisplay details \<or> \<not> SupportsCompute details)))"

text \<open>
  The inner loop over the indices of one adapter list; \<open>index\<close> is the index of the first
  adapter of the remaining list, \<open>unique\<close> is \<^verbatim>\<open>uniqueAdapters\<close>.
\<close>

fun process_adapters ::
  "DeviceFilter \<Rightarrow> bool \<Rightarrow> bool \<Rightarrow> nat \<Rightarrow> IDXCoreAdapter reply list \<Rightarrow> (int \<times> Adapter) list
   \<Rightarrow> abrupt option \<times> (int \<times> Adapter) list" where
  "process_adapters flt includeIntegrated includeDetachable index [] unique = (None, unique)"
| "process_adapters flt includeIntegrated includeDetachable index (r # rs) unique =
     (case r of
        Failed t \<Rightarrow>
          (Some (Thrown (Wrap
             (CreateError t (''AdapterEnumeration.cpp'', ''AdapterEnumeration::EnumerateAdapters'', 65))
             (''IDXCoreAdapterList::GetAdapter() failed for index '' @ to_wstring index))),
           unique)
      | Done adapter \<Rightarrow>
          (case ExtractAdapterDetails adapter of
             Inl e \<Rightarrow> (Some e, unique)
           | Inr details \<Rightarrow>
               if \<not> IsHardware details
                 then process_adapters flt includeIntegrated includeDetachable (Suc index) rs unique
               else if filter_mismatch flt details
                 then process_adapters flt includeIntegrated includeDetachable (Suc index) rs unique
               else if IsIntegrated details \<and> \<not> includeIntegrated
                 then process_adapters flt includeIntegrated includeDetachable (Suc index) rs unique
               else if IsDetachable details \<and> \<not> includeDetachable
                 then process_adapters flt includeIntegrated includeDetachable (Suc index) rs unique
               else process_adapters flt includeIntegrated includeDetachable (Suc index) rs
                      (map_insert (InstanceLuid details, details) unique)))"

text \<open>
  The outer loop over \<^verbatim>\<open>adapterLists\<close>. Calling \<^verbatim>\<open>GetAdapterCount\<close> through a null pointer is
  undefined behaviour.
\<close>

fun process_lists ::
  "DeviceFilter \<Rightarrow> bool \<Rightarrow> bool \<Rightarrow> IDXCoreAdapterList option list \<Rightarrow> (int \<times> Adapter) list
   \<Rightarrow> abrupt option \<times> (int \<times> Adapter) list" where
  "process_lists flt includeIntegrated includeDetachable [] unique = (None, unique)"
| "process_lists flt includeIntegrated includeDetachable (None # ls) unique =
     (Some undefined_behaviour, unique)"
| "process_lists flt includeIntegrated includeDetachable (Some adapters # ls) unique =
     (case process_adapters flt includeIntegrated includeDetachable 0 adapters unique of
        (Some e, unique') \<Rightarrow> (Some e, unique')
      | (None, unique') \<Rightarrow> process_lists flt includeIntegrated includeDetachable ls unique')"

definition EnumerateAdapters ::
  "DXCore \<Rightarrow> DeviceFilter \<Rightarrow> bool \<Rightarrow> bool \<Rightarrow> AdapterEnumeration
   \<Rightarrow> abrupt option \<times> AdapterEnumeration" where
  "EnumerateAdapters X flt includeIntegrated includeDetachable en =
     (case create_lists X flt (en\<lparr>adapterLists := [], uniqueAdapters := []\<rparr>) of
        (Some e, en1) \<Rightarrow> (Some e, en1)
      | (None, en1) \<Rightarrow>
          (case process_lists flt includeIntegrated includeDetachable
                  (adapterLists en1) (uniqueAdapters en1) of
             (r, unique) \<Rightarrow> (r, en1\<lparr>uniqueAdapters := unique\<rparr>)))"

definition GetUniqueAdapters :: "AdapterEnumeration \<Rightarrow> (int \<times> Adapter) list" where
  "GetUniqueAdapters en = uniqueAdapters en"

text \<open>
  \<^verbatim>\<open>AdapterEnumeration::IsStale\<close>. Whether a list is stale is the platform's answer at the time
  of the call, the parameter \<open>stale\<close>. Calling \<^verbatim>\<open>IsStale\<close> through a null pointer is undefined
  behaviour.
\<close>

fun any_stale :: "(IDXCoreAdapterList \<Rightarrow> bool) \<Rightarrow> IDXCoreAdapterList option list \<Rightarrow> abrupt + bool" where
  "any_stale stale [] = Inr False"
| "any_stale stale (None # ls) = Inl undefined_behaviour"
| "any_stale stale (Some l # ls) = (if stale l then Inr True else any_stale stale ls)"

definition IsStale :: "(IDXCoreAdapterList \<Rightarrow> bool) \<Rightarrow> AdapterEnumeration \<Rightarrow> abrupt + bool" where
  "IsStale stale en = (if adapterLists en = [] then Inr True else any_stale stale (adapterLists en))"

section \<open>Devices (Device.h)\<close>

record RuntimeFile =
  SourcePath :: string
  DestinationFilename :: string

text \<open>The constructor of \<^verbatim>\<open>RuntimeFile\<close>.\<close>

definition RuntimeFile_ctor :: "string \<Rightarrow> string \<Rightarrow> RuntimeFile" where
  "RuntimeFile_ctor source destination =
     \<lparr>SourcePath = source,
      DestinationFilename = (if destination = [] then filename source else destination)\<rparr>"

record Device =
  DeviceAdapter :: Adapter
  ID :: string
  Description :: string
  DriverRegistryKey :: string
  DriverStorePath :: string
  LocationPath :: string
  RuntimeFiles :: "RuntimeFile list"
  RuntimeFilesWow64 :: "RuntimeFile list"
  Vendor :: string

definition Device_default :: Device where
  "Device_default =
     \<lparr>DeviceAdapter = Adapter_default, ID = [], Description = [], DriverRegistryKey = [],
      DriverStorePath = [], LocationPath = [], RuntimeFiles = [], RuntimeFilesWow64 = [],
      Vendor = []\<rparr>"

section \<open>Correlation with PnP devices (WmiQuery.cpp, SafeArray.h, SafeArray.cpp)\<close>

definition dquote :: char where
  "dquote = CHR 0x22"

record GUID =
  Data1 :: nat
  Data2 :: nat
  Data3 :: nat
  Data4 :: "nat list"

record DEVPROPKEY =
  fmtid :: GUID
  pid :: nat

definition DEVPKEY_Device_AdapterLuid :: DEVPROPKEY where
  "DEVPKEY_Device_AdapterLuid =
     \<lparr>fmtid = \<lparr>Data1 = 0x60b193cb, Data2 = 0x5276, Data3 = 0x4d0f,
               Data4 = [0x96, 0xfc, 0xf1, 0x73, 0xab, 0xad, 0x3e, 0xc6]\<rparr>,
      pid = 2\<rparr>"

definition DevPropKeyToString :: "DEVPROPKEY \<Rightarrow> string" where
  "DevPropKeyToString key =
     ''{'' @ format_hex 8 (Data1 (fmtid key)) @ ''-'' @ format_hex 4 (Data2 (fmtid key))
     @ ''-'' @ format_hex 4 (Data3 (fmtid key))
     @ ''-'' @ format_hex 2 (Data4 (fmtid key) ! 0) @ format_hex 2 (Data4 (fmtid key) ! 1)
     @ ''-'' @ format_hex 2 (Data4 (fmtid key) ! 2) @ format_hex 2 (Data4 (fmtid key) ! 3)
     @ format_hex 2 (Data4 (fmtid key) ! 4) @ format_hex 2 (Data4 (fmtid key) ! 5)
     @ format_hex 2 (Data4 (fmtid key) ! 6) @ format_hex 2 (Data4 (fmtid key) ! 7)
     @ ''} '' @ to_wstring (pid key)"

definition FormatHardwareID :: "DXCoreHardwareID \<Rightarrow> string" where
  "FormatHardwareID dxHardwareID =
     ''PCI'' @ [backslash, backslash] @ ''VEN_'' @ format_hex 4 (unat (vendorID dxHardwareID))
     @ ''&DEV_'' @ format_hex 4 (unat (deviceID dxHardwareID))
     @ ''&SUBSYS_'' @ format_hex 8 (unat (subSysID dxHardwareID))
     @ ''&REV_'' @ format_hex 2 (unat (revision dxHardwareID)) @ ''%''"

text \<open>
  \<^verbatim>\<open>std::stoll\<close> in base 10, as \<^verbatim>\<open>strtoll\<close> reads its argument: white space is skipped, a
  sign may follow, then the longest run of digits is converted. Without a digit it throws
  \<^verbatim>\<open>std::invalid_argument\<close>, with a value outside \<^verbatim>\<open>long long\<close> it throws \<^verbatim>\<open>std::out_of_range\<close>.
\<close>

definition isspace :: "char \<Rightarrow> bool" where
  "isspace c = (c \<in> set [CHR '' '', CHR 0x09, CHR 0x0A, CHR 0x0B, CHR 0x0C, CHR 0x0D])"

definition isdigit :: "char \<Rightarrow> bool" where
  "isdigit c = (c \<in> set ''0123456789'')"

definition digit_value :: "char \<Rightarrow> nat" where
  "digit_value c = of_char c - 48"

definition digits_value :: "string \<Rightarrow> nat" where
  "digits_value ds = foldl (\<lambda>acc c. 10 * acc + digit_value c) 0 ds"

definition stoll :: "string \<Rightarrow> abrupt + int" where
  "stoll str =
     (let s1 = dropWhile isspace str;
          negative = (s1 \<noteq> [] \<and> hd s1 = CHR ''-'');
          s2 = (if s1 \<noteq> [] \<and> (hd s1 = CHR ''-'' \<or> hd s1 = CHR ''+'') then tl s1 else s1);
          ds = takeWhile isdigit s2;
          v = (if negative then - int (digits_value ds) else int (digits_value ds))
      in if ds = [] then Inl invalid_argument
         else if v < - (2 ^ 63) \<or> 2 ^ 63 - 1 < v then Inl out_of_range
         else Inr v)"

text \<open>
  The PnP device query backend (WMI). A \<^verbatim>\<open>VARIANT\<close> is its type tag with the member of the
  union that the program reads; an array of strings comes with the answer of the
  \<^verbatim>\<open>SafeArrayLock\<close> call that \<^verbatim>\<open>SafeArrayIterator\<close> makes on it.
\<close>

datatype VARIANT =
    VT_I8 int
  | VT_BSTR string
  | VT_ARRAY_BSTR "unit reply" "string list"
  | VT_other

text \<open>An element of the \<^verbatim>\<open>deviceProperties\<close> array, a \<^verbatim>\<open>Win32_PnPDeviceProperty\<close> object.\<close>

record Win32_PnPDeviceProperty =
  QueryInterface :: "unit reply"
  Get_KeyName :: "string reply"
  Get_Data :: "VARIANT reply"

datatype deviceProperties_VARIANT =
    VT_ARRAY_UNKNOWN "unit reply" "Win32_PnPDeviceProperty list"
  | VT_not_array_of_unknown

text \<open>
  A \<^verbatim>\<open>Win32_PnPEntity\<close> object of the query result, with the answers of the calls that
  \<^verbatim>\<open>ExtractDeviceDetails\<close> makes for it, in the order of the source. The string properties
  are delivered as text.
\<close>

record Win32_PnPEntity =
  Get_DeviceID :: "string reply"
  Get_Description :: "string reply"
  Get_Manufacturer :: "string reply"
  Get_Path :: "string reply"
  SpawnInstance :: "unit reply"
  CreateStringArray_SafeArrayLock :: "unit reply"
  Put_devicePropertyKeys :: "unit reply"
  ExecMethod_GetDeviceProperties :: "unit reply"
  GetResultObject :: "unit reply"
  Get_deviceProperties :: "deviceProperties_VARIANT reply"

text \<open>
  The service: the calls of the constructor of \<^verbatim>\<open>WmiQuery\<close>, and \<^verbatim>\<open>ExecQuery\<close>, which answers
  a query text with an enumerator. The enumerator is the sequence of the answers of its
  \<^verbatim>\<open>Next\<close> method; after the last one \<^verbatim>\<open>Next\<close> returns no object.
\<close>

record WMI =
  create_instance_IWbemLocator :: "unit reply"
  ConnectServer :: "unit reply"
  CoSetProxyBlanket :: "unit reply"
  GetObject_Win32_PnPEntity :: "unit reply"
  GetMethod_GetDeviceProperties :: "unit reply"
  ExecQuery :: "string \<Rightarrow> Win32_PnPEntity reply list reply"

text \<open>The class \<^verbatim>\<open>WmiQuery\<close>; its COM pointers are not null once the constructor has returned.\<close>

record WmiQuery =
  devPropKeyLUID :: string

definition WmiQuery_ctor :: "WMI \<Rightarrow> abrupt + WmiQuery" where
  "WmiQuery_ctor W =
     check_throw (create_instance_IWbemLocator W) (''WmiQuery.cpp'', ''WmiQuery::WmiQuery'', 65)
       ''failed to create an IWbemLocator instance'' (\<lambda>_.
     check_throw (ConnectServer W) (''WmiQuery.cpp'', ''WmiQuery::WmiQuery'', 71)
       ''failed to connect to the WMI service'' (\<lambda>_.
     check_throw (CoSetProxyBlanket W) (''WmiQuery.cpp'', ''WmiQuery::WmiQuery'', 86)
       ''failed to set the security level for the WMI service proxy'' (\<lambda>_.
     check_throw (GetObject_Win32_PnPEntity W) (''WmiQuery.cpp'', ''WmiQuery::WmiQuery'', 101)
       ''failed to retrieve the CIM class definition for the Win32_PnPEntity class'' (\<lambda>_.
     check_throw (GetMethod_GetDeviceProperties W) (''WmiQuery.cpp'', ''WmiQuery::WmiQuery'', 113)
       ''failed to retrieve the input parameters class for Win32_PnPEntity::GetDeviceProperties'' (\<lambda>_.
     Inr \<lparr>devPropKeyLUID = DevPropKeyToString DEVPKEY_Device_AdapterLuid\<rparr>)))))"

text \<open>
  The loop over the device properties in \<^verbatim>\<open>ExtractDeviceDetails\<close>. A property whose \<^verbatim>\<open>Data\<close>
  cannot be read is skipped. Reading the first element of an empty array of location paths
  is a read out of range.
\<close>

fun process_properties :: "WmiQuery \<Rightarrow> Win32_PnPDeviceProperty list \<Rightarrow> Device \<Rightarrow> abrupt + Device" where
  "process_properties wmi [] details = Inr details"
| "process_properties wmi (element # elements) details =
     check_throw (QueryInterface element) (''WmiQuery.cpp'', ''WmiQuery::ExtractDeviceDetails'', 287)
       ''IUnknown::QueryInterface() failed for Win32_PnPDeviceProperty object'' (\<lambda>_.
     check_throw (Get_KeyName element) (''WmiQuery.cpp'', ''WmiQuery::ExtractDeviceDetails'', 294)
       ''failed to retrieve KeyName property of PnP device property'' (\<lambda>keyName.
     (case Get_Data element of
        Failed t \<Rightarrow> process_properties wmi elements details
      | Done data \<Rightarrow>
          if keyName = ''DEVPKEY_Device_Driver'' then
            (case data of
               VT_BSTR bstrVal \<Rightarrow>
                 process_properties wmi elements
                   (details\<lparr>DriverRegistryKey :=
                      ''HKEY_LOCAL_MACHINE'' @ [backslash] @ ''SYSTEM'' @ [backslash]
                      @ ''CurrentControlSet'' @ [backslash] @ ''Control'' @ [backslash]
                      @ ''Class'' @ [backslash] @ bstrVal\<rparr>)
             | _ \<Rightarrow> Inl (Thrown (CreateError ''DeviceDriver value was not a string''
                          (''WmiQuery.cpp'', ''WmiQuery::ExtractDeviceDetails'', 314))))
          else if keyName = ''DEVPKEY_Device_LocationPaths'' then
            (case data of
               VT_ARRAY_BSTR lock parray \<Rightarrow>
                 check_throw lock (''SafeArray.h'', ''SafeArrayIterator::SafeArrayIterator'', 20)
                   ''SafeArrayLock failed'' (\<lambda>_.
                 (case parray of
                    [] \<Rightarrow> Inl undefined_behaviour
                  | first # _ \<Rightarrow> process_properties wmi elements (details\<lparr>LocationPath := first\<rparr>)))
             | _ \<Rightarrow> Inl (Thrown (CreateError ''LocationPaths value was not an array of strings''
                          (''WmiQuery.cpp'', ''WmiQuery::ExtractDeviceDetails'', 326))))
          else if keyName = devPropKeyLUID wmi then
            (case data of
               VT_I8 llVal \<Rightarrow>
                 process_properties wmi elements
                   (details\<lparr>DeviceAdapter := (DeviceAdapter details)\<lparr>InstanceLuid := llVal\<rparr>\<rparr>)
             | VT_BSTR bstrVal \<Rightarrow>
                 (case stoll bstrVal of
                    Inl e \<Rightarrow> Inl e
                  | Inr v \<Rightarrow>
                      process_properties wmi elements
                        (details\<lparr>DeviceAdapter := (DeviceAdapter details)\<lparr>InstanceLuid := v\<rparr>\<rparr>))
             | _ \<Rightarrow> Inl (Thrown (CreateError ''LUID value was not a 64-bit integer or a string''
                          (''WmiQuery.cpp'', ''WmiQuery::ExtractDeviceDetails'', 345))))
          else process_properties wmi elements details)))"

definition ExtractDeviceDetails :: "WmiQuery \<Rightarrow> Win32_PnPEntity \<Rightarrow> abrupt + Device" where
  "ExtractDeviceDetails wmi device =
     check_throw (Get_DeviceID device) (''WmiQuery.cpp'', ''WmiQuery::ExtractDeviceDetails'', 202)
       ''failed to retrieve DeviceID property of PnP device'' (\<lambda>vtDeviceID.
     check_throw (Get_Description device) (''WmiQuery.cpp'', ''WmiQuery::ExtractDeviceDetails'', 210)
       ''failed to retrieve Description property of PnP device'' (\<lambda>vtDescription.
     check_throw (Get_Manufacturer device) (''WmiQuery.cpp'', ''WmiQuery::ExtractDeviceDetails'', 218)
       ''failed to retrieve Manufacturer property of PnP device'' (\<lambda>vtVendor.
     check_throw (Get_Path device) (''WmiQuery.cpp'', ''WmiQuery::ExtractDeviceDetails'', 226)
       ''failed to retrieve __Path property of PnP device'' (\<lambda>vtPath.
     check_throw (SpawnInstance device) (''WmiQuery.cpp'', ''WmiQuery::ExtractDeviceDetails'', 233)
       ''failed to spawn input parameters instance for Win32_PnPEntity::GetDeviceProperties'' (\<lambda>_.
     check_throw (CreateStringArray_SafeArrayLock device)
       (''SafeArray.cpp'', ''SafeArrayFactory::CreateStringArray'', 16)
       ''SafeArrayLock failed'' (\<lambda>_.
     check_throw (Put_devicePropertyKeys device) (''WmiQuery.cpp'', ''WmiQuery::ExtractDeviceDetails'', 244)
       ''failed to assign input parameters array for Win32_PnPEntity::GetDeviceProperties'' (\<lambda>_.
     check_throw (ExecMethod_GetDeviceProperties device)
       (''WmiQuery.cpp'', ''WmiQuery::ExtractDeviceDetails'', 251)
       ''failed to invoke Win32_PnPEntity::GetDeviceProperties()'' (\<lambda>_.
     check_throw (GetResultObject device) (''WmiQuery.cpp'', ''WmiQuery::ExtractDeviceDetails'', 266)
       ''failed to retrieve return value for Win32_PnPEntity::GetDeviceProperties'' (\<lambda>_.
     check_throw (Get_deviceProperties device) (''WmiQuery.cpp'', ''WmiQuery::ExtractDeviceDetails'', 273)
       ''failed to retrieve deviceProperties property of Win32_PnPEntity::GetDeviceProperties return value''
       (\<lambda>vtPropertiesArray.
     (case vtPropertiesArray of
        VT_not_array_of_unknown \<Rightarrow>
          Inl (Thrown (CreateError ''deviceProperties value was not an array of IUnknown objects''
                 (''WmiQuery.cpp'', ''WmiQuery::ExtractDeviceDetails'', 278)))
      | VT_ARRAY_UNKNOWN lock parray \<Rightarrow>
          check_throw lock (''SafeArray.h'', ''SafeArrayIterator::SafeArrayIterator'', 20)
            ''SafeArrayLock failed'' (\<lambda>_.
          process_properties wmi parray
            (Device_default\<lparr>ID := vtDeviceID, Description := vtDescription,
               Vendor := vtVendor\<rparr>)))))))))))))"

text \<open>
  The loop of \<^verbatim>\<open>GetDevicesForAdapters\<close> over the enumerator: \<^verbatim>\<open>adapters.find\<close> is \<^const>\<open>map_of\<close>,
  \<open>devices\<close> is the vector of the results so far.
\<close>

fun match_devices ::
  "WmiQuery \<Rightarrow> (int \<times> Adapter) list \<Rightarrow> Win32_PnPEntity reply list \<Rightarrow> Device list
   \<Rightarrow> abrupt + Device list" where
  "match_devices wmi adapters [] devices = Inr devices"
| "match_devices wmi adapters (next # enumerator) devices =
     check_throw next (''WmiQuery.cpp'', ''WmiQuery::GetDevicesForAdapters'', 168)
       ''enumerating PnP devices failed'' (\<lambda>device.
     (case ExtractDeviceDetails wmi device of
        Inl e \<Rightarrow> Inl e
      | Inr details \<Rightarrow>
          (case map_of adapters (InstanceLuid (DeviceAdapter details)) of
             Some matchingAdapter \<Rightarrow>
               match_devices wmi adapters enumerator
                 (devices @ [details\<lparr>DeviceAdapter := matchingAdapter\<rparr>])
           | None \<Rightarrow> match_devices wmi adapters enumerator devices)))"

text \<open>
  The text of the WQL query: \<^verbatim>\<open>hardwareIDs\<close> is a \<^verbatim>\<open>std::set\<close>, an ascending list without
  repetition; the loop appends one clause for each of its elements.
\<close>

fun append_clauses :: "int \<Rightarrow> int \<Rightarrow> string list \<Rightarrow> string \<Rightarrow> string" where
  "append_clauses index lastIndex [] query = query"
| "append_clauses index lastIndex (hardwareID # ids) query =
     append_clauses (index + 1) lastIndex ids
       (query @ ''DeviceID LIKE '' @ [dquote] @ hardwareID @ [dquote]
        @ (if index < lastIndex then '' OR '' else []))"

definition build_query :: "(int \<times> Adapter) list \<Rightarrow> string" where
  "build_query adapters =
     (let hardwareIDs =
            foldl (\<lambda>ids adapter. insort_insert (FormatHardwareID (HardwareID (snd adapter))) ids)
              [] adapters
      in append_clauses 0 (int (length hardwareIDs) - 1) hardwareIDs
           ''SELECT * FROM Win32_PnPEntity WHERE Present = TRUE AND ('' @ '')'')"

definition GetDevicesForAdapters ::
  "WMI \<Rightarrow> WmiQuery \<Rightarrow> (int \<times> Adapter) list \<Rightarrow> abrupt + Device list" where
  "GetDevicesForAdapters W wmi adapters =
     (if adapters = [] then Inr []
      else check_throw (ExecQuery W (build_query adapters))
             (''WmiQuery.cpp'', ''WmiQuery::GetDevicesForAdapters'', 150)
             ''WQL query execution failed''
             (\<lambda>enumerator. match_devices wmi adapters enumerator []))"

section \<open>Driver details from the registry (D3DHelpers.cpp, RegistryQuery.cpp)\<close>

text \<open>
  The driver and registry backend. \<^verbatim>\<open>D3DKMTQueryAdapterInfo\<close> answers, for the adapter with a
  LUID and a trailing buffer of a size in bytes, with a failure or with the fields that the
  platform has written into the \<^verbatim>\<open>D3DDDI_QUERYREGISTRY_INFO\<close> structure. \<^verbatim>\<open>RegOpenKeyExW\<close>
  answers, for the name of a root key and a path, with a failure or with the key, which is
  the sequence of the answers of \<^verbatim>\<open>RegEnumValueW\<close> for the indices from 0; after the last one
  \<^verbatim>\<open>RegEnumValueW\<close> reports that there are no more items.
\<close>

datatype D3DDDI_QUERYREGISTRY_STATUS =
    D3DDDI_QUERYREGISTRY_STATUS_SUCCESS
  | D3DDDI_QUERYREGISTRY_STATUS_BUFFER_OVERFLOW
  | D3DDDI_QUERYREGISTRY_STATUS_FAIL

record D3DDDI_QUERYREGISTRY_INFO =
  Status :: D3DDDI_QUERYREGISTRY_STATUS
  OutputValueSize :: nat
  OutputString :: string

text \<open>
  An enumerated registry value: its name, its type, the content of the data buffer after
  the call, and the number of bytes that the platform reports to have written there.
\<close>

record RegValue =
  valueName :: string
  valueType :: nat
  valueData :: string
  dataBufsize :: nat

type_synonym HKEY = "RegValue reply list"

record Drivers =
  D3DKMTOpenAdapterFromLuid :: "int \<Rightarrow> unit reply"
  D3DKMTQueryAdapterInfo :: "int \<Rightarrow> nat \<Rightarrow> D3DDDI_QUERYREGISTRY_INFO reply"
  GetEnvironmentVariableW_SystemRoot :: string
  RegOpenKeyExW :: "string \<Rightarrow> string \<Rightarrow> HKEY reply"

text \<open>
  \<^verbatim>\<open>QueryD3DRegistryInfo::PerformQuery\<close>: the query is repeated with the trailing buffer
  resized to the size that the platform asks for, as long as the platform reports an
  overflow. The loop has no bound; \<open>None\<close> is a loop that does not end.
\<close>

partial_function (option) PerformQuery ::
  "(nat \<Rightarrow> D3DDDI_QUERYREGISTRY_INFO reply) \<Rightarrow> nat \<Rightarrow> (abrupt + D3DDDI_QUERYREGISTRY_INFO) option" where
  "PerformQuery query trailingBuffer =
     (case query trailingBuffer of
        Failed t \<Rightarrow>
          Some (Inl (Thrown (Wrap
            (CreateError t (''D3DHelpers.cpp'', ''QueryD3DRegistryInfo::PerformQuery'', 49))
            ''D3DKMTQueryAdapterInfo failed'')))
      | Done RegistryInfo \<Rightarrow>
          if Status RegistryInfo = D3DDDI_QUERYREGISTRY_STATUS_BUFFER_OVERFLOW
          then PerformQuery query (OutputValueSize RegistryInfo)
          else Some (Inr RegistryInfo))"

declare PerformQuery.simps [code]

text \<open>
  The wide string that starts at a pointer into a buffer: the characters up to the first
  null character. The buffers of the program are zero-initialised; a read that reaches the
  end of the content given by the platform stops there.
\<close>

definition c_string :: "string \<Rightarrow> string" where
  "c_string buffer = takeWhile (\<lambda>c. c \<noteq> CHR 0x00) buffer"

function extract_strings :: "string \<Rightarrow> nat \<Rightarrow> nat \<Rightarrow> string list \<Rightarrow> string list" where
  "extract_strings data upperBound offset strings =
     (if offset < upperBound then
        (if c_string (drop offset data) = [] then strings
         else extract_strings data upperBound
                (offset + (length (c_string (drop offset data)) + 1))
                (strings @ [c_string (drop offset data)]))
      else strings)"
  by pat_completeness auto
termination
  by (relation "measure (\<lambda>(data, upperBound, offset, strings). upperBound - offset)") auto

definition ExtractMultiStringValue :: "string \<Rightarrow> nat \<Rightarrow> string list" where
  "ExtractMultiStringValue data numBytes = extract_strings data (numBytes div 2) 0 []"

definition REG_MULTI_SZ :: nat where
  "REG_MULTI_SZ = 7"

text \<open>
  The loop of \<^verbatim>\<open>EnumerateMultiStringValues\<close>; \<open>values\<close> is the \<^verbatim>\<open>std::map\<close> from value names
  to string lists built so far.
\<close>

fun enumerate_values ::
  "RegValue reply list \<Rightarrow> (string \<times> string list) list \<Rightarrow> abrupt + (string \<times> string list) list" where
  "enumerate_values [] values = Inr values"
| "enumerate_values (result # results) values =
     check_throw result (''RegistryQuery.cpp'', ''RegistryQuery::EnumerateMultiStringValues'', 35)
       ''RegEnumValueW failed'' (\<lambda>v.
     if valueType v \<noteq> REG_MULTI_SZ
     then Inl (Thrown (CreateError
            (''enumerated value was not of type REG_MULTI_SZ: '' @ valueName v)
            (''RegistryQuery.cpp'', ''RegistryQuery::EnumerateMultiStringValues'', 43)))
     else enumerate_values results
            (map_insert (valueName v, ExtractMultiStringValue (valueData v) (dataBufsize v)) values))"

definition EnumerateMultiStringValues :: "HKEY \<Rightarrow> abrupt + (string \<times> string list) list" where
  "EnumerateMultiStringValues key = enumerate_values key []"

definition rootKeys :: "string list" where
  "rootKeys = [''HKEY_CLASSES_ROOT'', ''HKEY_CURRENT_CONFIG'', ''HKEY_CURRENT_USER'',
     ''HKEY_LOCAL_MACHINE'', ''HKEY_PERFORMANCE_DATA'', ''HKEY_USERS'']"

text \<open>\<^verbatim>\<open>find_first_of\<close> for a single character: the first index of it, \<open>None\<close> for \<^verbatim>\<open>npos\<close>.\<close>

fun find_first_of :: "char \<Rightarrow> string \<Rightarrow> nat option" where
  "find_first_of c [] = None"
| "find_first_of c (x # xs) =
     (if x = c then Some 0 else map_option Suc (find_first_of c xs))"

definition OpenKeyFromString :: "Drivers \<Rightarrow> string \<Rightarrow> abrupt + HKEY" where
  "OpenKeyFromString K key =
     (case find_first_of backslash key of
        None \<Rightarrow>
          Inl (Thrown (CreateError (''invalid registry key path: '' @ key)
                 (''RegistryQuery.cpp'', ''RegistryQuery::OpenKeyFromString'', 89)))
      | Some b \<Rightarrow>
          if length key - 1 \<le> b
          then Inl (Thrown (CreateError (''invalid registry key path: '' @ key)
                 (''RegistryQuery.cpp'', ''RegistryQuery::OpenKeyFromString'', 89)))
          else if take b key \<notin> set rootKeys
          then Inl (Thrown (CreateError (''unknown registry root key: '' @ take b key)
                 (''RegistryQuery.cpp'', ''RegistryQuery::OpenKeyFromString'', 99)))
          else check_throw (RegOpenKeyExW K (take b key) (drop (b + 1) key))
                 (''RegistryQuery.cpp'', ''RegistryQuery::OpenKeyFromString'', 104)
                 (''failed to open registry key '' @ key) Inr)"

text \<open>
  The loop of \<^verbatim>\<open>ProcessRuntimeFiles\<close> over the enumerated values, in the order of the
  \<^verbatim>\<open>std::map\<close>; \<open>list\<close> is the list of runtime files of the device that is being extended.
\<close>

fun add_runtime_files :: "(string \<times> string list) list \<Rightarrow> RuntimeFile list \<Rightarrow> RuntimeFile list" where
  "add_runtime_files [] list = list"
| "add_runtime_files ((name, strings) # files) list =
     (case strings of
        [] \<Rightarrow> add_runtime_files files list
      | source # _ \<Rightarrow>
          (let newFile = RuntimeFile_ctor source (if length strings = 2 then strings ! 1 else [])
           in if find (\<lambda>f. DestinationFilename f = DestinationFilename newFile) list = None
              then add_runtime_files files (list @ [newFile])
              else add_runtime_files files list))"

text \<open>
  \<^verbatim>\<open>ProcessRuntimeFiles\<close>: the handler of the function catches \<^verbatim>\<open>DeviceDiscoveryError\<close> and
  only logs it.
\<close>

definition ProcessRuntimeFiles :: "Drivers \<Rightarrow> string \<Rightarrow> bool \<Rightarrow> Device \<Rightarrow> abrupt option \<times> Device" where
  "ProcessRuntimeFiles K key isWow64 device =
     (case (case OpenKeyFromString K (DriverRegistryKey device @ [backslash] @ key) of
              Inl e \<Rightarrow> Inl e
            | Inr registryKey \<Rightarrow> EnumerateMultiStringValues registryKey) of
        Inr files \<Rightarrow>
          (None,
           if isWow64
           then device\<lparr>RuntimeFilesWow64 := add_runtime_files files (RuntimeFilesWow64 device)\<rparr>
           else device\<lparr>RuntimeFiles := add_runtime_files files (RuntimeFiles device)\<rparr>)
      | Inl (Thrown err) \<Rightarrow> (None, device)
      | Inl e \<Rightarrow> (Some e, device))"

text \<open>The four calls of \<^verbatim>\<open>ProcessRuntimeFiles\<close> at the end of \<^verbatim>\<open>FillDriverDetails\<close>.\<close>

definition process_all_runtime_files :: "Drivers \<Rightarrow> Device \<Rightarrow> abrupt option \<times> Device" where
  "process_all_runtime_files K device =
     (case ProcessRuntimeFiles K ''CopyToVmOverwrite'' False device of
        (Some e, device1) \<Rightarrow> (Some e, device1)
      | (None, device1) \<Rightarrow>
     (case ProcessRuntimeFiles K ''CopyToVmWhenNewer'' False device1 of
        (Some e, device2) \<Rightarrow> (Some e, device2)
      | (None, device2) \<Rightarrow>
     (case ProcessRuntimeFiles K ''CopyToVmOverwriteWow64'' True device2 of
        (Some e, device3) \<Rightarrow> (Some e, device3)
      | (None, device3) \<Rightarrow> ProcessRuntimeFiles K ''CopyToVmWhenNewerWow64'' True device3)))"

text \<open>The expansion of the prefix \<^verbatim>\<open>\SystemRoot\<close> of the driver store path.\<close>

definition expand_SystemRoot :: "string \<Rightarrow> string \<Rightarrow> string" where
  "expand_SystemRoot systemRoot path =
     (if prefix (backslash # ''SystemRoot'') path
      then systemRoot @ drop (length (backslash # ''SystemRoot'')) path
      else path)"

definition FillDriverDetails :: "Drivers \<Rightarrow> Device \<Rightarrow> (abrupt option \<times> Device) option" where
  "FillDriverDetails K device =
     (case D3DKMTOpenAdapterFromLuid K (InstanceLuid (DeviceAdapter device)) of
        Failed t \<Rightarrow>
          Some (Some (Thrown (Wrap
                  (CreateError t (''RegistryQuery.cpp'', ''RegistryQuery::FillDriverDetails'', 157))
                  (''D3DKMTOpenAdapterFromLuid failed to open adapter with LUID ''
                   @ to_wstring_signed (InstanceLuid (DeviceAdapter device))))),
                device)
      | Done _ \<Rightarrow>
          (case PerformQuery (D3DKMTQueryAdapterInfo K (InstanceLuid (DeviceAdapter device))) 0 of
             None \<Rightarrow> None
           | Some (Inl e) \<Rightarrow> Some (Some e, device)
           | Some (Inr RegistryInfo) \<Rightarrow>
               (let device1 = device\<lparr>DriverStorePath :=
                      expand_SystemRoot (GetEnvironmentVariableW_SystemRoot K)
                        (OutputString RegistryInfo)\<rparr>
                in if contains ''HostDriverStore'' (DriverStorePath device1)
                   then Some (None, device1)
                   else Some (process_all_runtime_files K device1))))"

section \<open>The discovery session (DeviceDiscoveryImp.cpp, DeviceDiscovery.cpp)\<close>

record Platform =
  dxcore :: DXCore
  wmi_service :: WMI
  drivers :: Drivers

record DeviceDiscoveryImp =
  devices :: "Device list"
  lastError :: string
  enumeration :: "AdapterEnumeration option"
  wmi_query :: "WmiQuery option"

text \<open>\<^verbatim>\<open>CreateDeviceDiscoveryInstance\<close>: a new object, both helper pointers null.\<close>

definition CreateDeviceDiscoveryInstance :: DeviceDiscoveryImp where
  "CreateDeviceDiscoveryInstance =
     \<lparr>devices = [], lastError = [], enumeration = None, wmi_query = None\<rparr>"

definition HaveDevices :: "DeviceDiscoveryImp \<Rightarrow> bool" where
  "HaveDevices s = (enumeration s \<noteq> None \<and> wmi_query s \<noteq> None)"

definition GetLastErrorMessage :: "DeviceDiscoveryImp \<Rightarrow> string" where
  "GetLastErrorMessage s = lastError s"

text \<open>The macros \<^verbatim>\<open>RETURN_ERROR\<close> and \<^verbatim>\<open>RETURN_SUCCESS\<close>.\<close>

definition RETURN_ERROR :: "'a \<Rightarrow> string \<Rightarrow> DeviceDiscoveryImp \<Rightarrow> 'a \<times> DeviceDiscoveryImp" where
  "RETURN_ERROR sentinel msg s = (sentinel, s\<lparr>lastError := msg\<rparr>)"

definition RETURN_SUCCESS :: "'a \<Rightarrow> DeviceDiscoveryImp \<Rightarrow> 'a \<times> DeviceDiscoveryImp" where
  "RETURN_SUCCESS v s = (v, s\<lparr>lastError := []\<rparr>)"

definition IsRefreshRequired ::
  "(IDXCoreAdapterList \<Rightarrow> bool) \<Rightarrow> DeviceDiscoveryImp \<Rightarrow> abrupt + bool" where
  "IsRefreshRequired stale s =
     (if HaveDevices s
      then (case enumeration s of
              None \<Rightarrow> Inl undefined_behaviour
            | Some en \<Rightarrow> IsStale stale en)
      else Inr True)"

text \<open>The first statement of the \<^verbatim>\<open>try\<close> block of \<^verbatim>\<open>DiscoverDevices\<close>.\<close>

definition create_helpers :: "Platform \<Rightarrow> DeviceDiscoveryImp \<Rightarrow> abrupt option \<times> DeviceDiscoveryImp" where
  "create_helpers P s =
     (if \<not> HaveDevices s then
        (case AdapterEnumeration_ctor (dxcore P) of
           Inl e \<Rightarrow> (Some e, s)
         | Inr en \<Rightarrow>
             (case WmiQuery_ctor (wmi_service P) of
                Inl e \<Rightarrow> (Some e, s\<lparr>enumeration := Some en\<rparr>)
              | Inr w \<Rightarrow> (None, s\<lparr>enumeration := Some en, wmi_query := Some w\<rparr>)))
      else (None, s))"

text \<open>
  The loop \<^verbatim>\<open>for (auto& device : this->devices) { RegistryQuery::FillDriverDetails(device); }\<close>,
  which changes the elements of the vector in place.
\<close>

fun fill_all :: "Drivers \<Rightarrow> Device list \<Rightarrow> (abrupt option \<times> Device list) option" where
  "fill_all K [] = Some (None, [])"
| "fill_all K (device # rest) =
     (case FillDriverDetails K device of
        None \<Rightarrow> None
      | Some (Some e, device') \<Rightarrow> Some (Some e, device' # rest)
      | Some (None, device') \<Rightarrow>
          (case fill_all K rest of
             None \<Rightarrow> None
           | Some (r, rest') \<Rightarrow> Some (r, device' # rest')))"

text \<open>
  The \<^verbatim>\<open>try\<close> block of \<^verbatim>\<open>DiscoverDevices\<close>: what it throws, if anything, and the state it
  leaves. Calling a method through a null helper pointer is undefined behaviour.
\<close>

definition DiscoverDevices_try ::
  "Platform \<Rightarrow> DeviceFilter \<Rightarrow> bool \<Rightarrow> bool \<Rightarrow> DeviceDiscoveryImp
   \<Rightarrow> (abrupt option \<times> DeviceDiscoveryImp) option" where
  "DiscoverDevices_try P flt includeIntegrated includeDetachable s =
     (case create_helpers P s of
        (Some e, s1) \<Rightarrow> Some (Some e, s1)
      | (None, s1) \<Rightarrow>
     (case enumeration s1 of
        None \<Rightarrow> Some (Some undefined_behaviour, s1)
      | Some en \<Rightarrow>
     (case EnumerateAdapters (dxcore P) flt includeIntegrated includeDetachable en of
        (Some e, en') \<Rightarrow> Some (Some e, s1\<lparr>enumeration := Some en'\<rparr>)
      | (None, en') \<Rightarrow>
     (case wmi_query s1 of
        None \<Rightarrow> Some (Some undefined_behaviour, s1\<lparr>enumeration := Some en'\<rparr>)
      | Some w \<Rightarrow>
     (case GetDevicesForAdapters (wmi_service P) w (GetUniqueAdapters en') of
        Inl e \<Rightarrow> Some (Some e, s1\<lparr>enumeration := Some en'\<rparr>)
      | Inr ds \<Rightarrow>
     (case fill_all (drivers P) ds of
        None \<Rightarrow> None
      | Some (r, ds') \<Rightarrow> Some (r, s1\<lparr>enumeration := Some en', devices := ds'\<rparr>)))))))"

text \<open>
  \<^verbatim>\<open>DeviceDiscoveryImp::DiscoverDevices\<close> with its two handlers. The result is what the
  function returns, or what leaves it uncaught.
\<close>

definition DiscoverDevices ::
  "Platform \<Rightarrow> DeviceFilter \<Rightarrow> bool \<Rightarrow> bool \<Rightarrow> DeviceDiscoveryImp
   \<Rightarrow> ((abrupt + bool) \<times> DeviceDiscoveryImp) option" where
  "DiscoverDevices P flt includeIntegrated includeDetachable s =
     (case DiscoverDevices_try P flt includeIntegrated includeDetachable s of
        None \<Rightarrow> None
      | Some (None, s') \<Rightarrow> Some (apfst Inr (RETURN_SUCCESS True s'))
      | Some (Some (Thrown err), s') \<Rightarrow> Some (apfst Inr (RETURN_ERROR False (Pretty err) s'))
      | Some (Some (runtime_error what), s') \<Rightarrow> Some (apfst Inr (RETURN_ERROR False what s'))
      | Some (Some e, s') \<Rightarrow> Some (Inl e, s'))"

text \<open>
  The exported function \<^verbatim>\<open>DeviceDiscovery_DiscoverDevices\<close> and the conversions of its
  arguments.
\<close>

definition DeviceFilter_of_int :: "int \<Rightarrow> DeviceFilter" where
  "DeviceFilter_of_int i =
     (if i = 0 then AllDevices
      else if i = 1 then DisplaySupported
      else if i = 2 then ComputeSupported
      else if i = 3 then DisplayOnly
      else if i = 4 then ComputeOnly
      else if i = 5 then DisplayAndCompute
      else UnnamedFilter i)"

definition DeviceDiscovery_DiscoverDevices ::
  "Platform \<Rightarrow> int \<Rightarrow> int \<Rightarrow> int \<Rightarrow> DeviceDiscoveryImp
   \<Rightarrow> ((abrupt + int) \<times> DeviceDiscoveryImp) option" where
  "DeviceDiscovery_DiscoverDevices P flt includeIntegrated includeDetachable instance =
     (case DiscoverDevices P (DeviceFilter_of_int flt) (includeIntegrated \<noteq> 0)
             (includeDetachable \<noteq> 0) instance of
        None \<Rightarrow> None
      | Some (Inl e, s') \<Rightarrow> Some (Inl e, s')
      | Some (Inr success, s') \<Rightarrow> Some (Inr (if success then 0 else - 1), s'))"























section \<open>Notions used in the statements\<close>

text \<open>
  The notions below are not functions of the program; the statements about the adapter
  enumeration are written with them. An adapter survives the loop body when none of its
  \<^verbatim>\<open>continue\<close> statements is taken.
\<close>

definition survives :: "DeviceFilter \<Rightarrow> bool \<Rightarrow> bool \<Rightarrow> Adapter \<Rightarrow> bool" where
  "survives flt includeIntegrated includeDetachable details =
     (IsHardware details \<and> \<not> filter_mismatch flt details \<and>
      \<not> (IsIntegrated details \<and> \<not> includeIntegrated) \<and>
      \<not> (IsDetachable details \<and> \<not> includeDetachable))"

text \<open>
  The details of the adapters of a list that are delivered, extracted and survive, in the
  order of the list.
\<close>

fun surviving :: "DeviceFilter \<Rightarrow> bool \<Rightarrow> bool \<Rightarrow> IDXCoreAdapter reply list \<Rightarrow> Adapter list" where
  "surviving flt includeIntegrated includeDetachable [] = []"
| "surviving flt includeIntegrated includeDetachable (r # rs) =
     (case r of
        Failed t \<Rightarrow> surviving flt includeIntegrated includeDetachable rs
      | Done adapter \<Rightarrow>
          (case ExtractAdapterDetails adapter of
             Inl e \<Rightarrow> surviving flt includeIntegrated includeDetachable rs
           | Inr details \<Rightarrow>
               if survives flt includeIntegrated includeDetachable details then details # surviving flt includeIntegrated includeDetachable rs
               else surviving flt includeIntegrated includeDetachable rs))"

text \<open>
  The attributes for which a filter asks for an adapter list, in the order of the source,
  and the adapters of those lists one after the other: the order in which a successful
  enumeration processes them.
\<close>

definition queried_attributes :: "DeviceFilter \<Rightarrow> attribute list" where
  "queried_attributes flt =
     (if flt \<noteq> ComputeOnly \<and> flt \<noteq> DisplayAndCompute then [DXCORE_ADAPTER_ATTRIBUTE_D3D11_GRAPHICS] else [])
     @ (if flt \<noteq> ComputeOnly then [DXCORE_ADAPTER_ATTRIBUTE_D3D12_GRAPHICS] else [])
     @ (if flt \<noteq> DisplayOnly then [DXCORE_ADAPTER_ATTRIBUTE_D3D12_CORE_COMPUTE] else [])"

fun list_of_reply :: "'a list reply \<Rightarrow> 'a list" where
  "list_of_reply (Failed t) = []"
| "list_of_reply (Done l) = l"

definition candidates :: "DXCore \<Rightarrow> DeviceFilter \<Rightarrow> IDXCoreAdapter reply list" where
  "candidates X flt = concat (map (\<lambda>attr. list_of_reply (CreateAdapterList X attr)) (queried_attributes flt))"

text \<open>Inserting adapters into \<^verbatim>\<open>uniqueAdapters\<close> one after the other.\<close>

definition insert_all :: "Adapter list \<Rightarrow> (int \<times> Adapter) list \<Rightarrow> (int \<times> Adapter) list" where
  "insert_all ds u = foldl (\<lambda>m d. map_insert (InstanceLuid d, d) m) u ds"

text \<open>
  The notions below serve the statements about the runtime files. The runtime file that
  the loop of \<^verbatim>\<open>ProcessRuntimeFiles\<close> constructs from the strings of a registry value, none
  for an empty list of strings.
\<close>

definition runtime_file_of :: "string list \<Rightarrow> RuntimeFile option" where
  "runtime_file_of strings =
     (case strings of
        [] \<Rightarrow> None
      | source # _ \<Rightarrow>
          Some (RuntimeFile_ctor source (if length strings = 2 then strings ! 1 else [])))"

text \<open>The runtime files constructed from the enumerated values, in the order of the loop.\<close>

definition new_files :: "(string \<times> string list) list \<Rightarrow> RuntimeFile list" where
  "new_files files = List.map_filter (\<lambda>pair. runtime_file_of (snd pair)) files"

text \<open>
  Appending runtime files to a list one after the other, each unless its destination
  filename is already in the list.
\<close>

fun add_unique :: "RuntimeFile list \<Rightarrow> RuntimeFile list \<Rightarrow> RuntimeFile list" where
  "add_unique [] list = list"
| "add_unique (newFile # entries) list =
     add_unique entries
       (if find (\<lambda>f. DestinationFilename f = DestinationFilename newFile) list = None
        then list @ [newFile] else list)"

text \<open>
  The runtime files that a sub-key of the driver registry key of a device offers to the
  loop: those of its values when the key can be opened and enumerated, none otherwise.
\<close>

definition registry_entries :: "Drivers \<Rightarrow> Device \<Rightarrow> string \<Rightarrow> RuntimeFile list" where
  "registry_entries K device key =
     (case OpenKeyFromString K (DriverRegistryKey device @ [backslash] @ key) of
        Inl e \<Rightarrow> []
      | Inr registryKey \<Rightarrow>
          (case EnumerateMultiStringValues registryKey of
             Inl e \<Rightarrow> []
           | Inr files \<Rightarrow> new_files files))"

text \<open>
  Whether what is thrown is a \<^verbatim>\<open>std::runtime_error\<close>, and a result that is not one: no
  function of the model throws it.
\<close>

fun is_runtime_error :: "abrupt \<Rightarrow> bool" where
  "is_runtime_error (runtime_error what) = True"
| "is_runtime_error _ = False"

definition benign :: "abrupt + 'a \<Rightarrow> bool" where
  "benign x = (case x of Inl e \<Rightarrow> \<not> is_runtime_error e | Inr v \<Rightarrow> True)"

text \<open>
  The stage at which a call of \<^verbatim>\<open>DiscoverDevices\<close> throws, if it does: the construction of
  the helper objects, the enumeration of the adapters, the correlation with the PnP devices,
  or the resolution of the driver details of a device.
\<close>

datatype stage = Construction | Enumeration | Correlation | Resolution

definition failing_stage ::
  "Platform \<Rightarrow> DeviceFilter \<Rightarrow> bool \<Rightarrow> bool \<Rightarrow> DeviceDiscoveryImp \<Rightarrow> stage option" where
  "failing_stage P flt includeIntegrated includeDetachable s =
     (case create_helpers P s of
        (Some e, s1) \<Rightarrow> Some Construction
      | (None, s1) \<Rightarrow>
     (case enumeration s1 of
        None \<Rightarrow> None
      | Some en \<Rightarrow>
     (case EnumerateAdapters (dxcore P) flt includeIntegrated includeDetachable en of
        (Some e, en') \<Rightarrow> Some Enumeration
      | (None, en') \<Rightarrow>
     (case wmi_query s1 of
        None \<Rightarrow> None
      | Some w \<Rightarrow>
     (case GetDevicesForAdapters (wmi_service P) w (GetUniqueAdapters en') of
        Inl e \<Rightarrow> Some Correlation
      | Inr ds \<Rightarrow>
     (case fill_all (drivers P) ds of
        Some (Some e, ds') \<Rightarrow> Some Resolution
      | _ \<Rightarrow> None))))))"

section \<open>Concrete platforms\<close>

definition example_adapter :: "int \<Rightarrow> bool \<Rightarrow> attribute list \<Rightarrow> IDXCoreAdapter" where
  "example_adapter luid integrated attrs =
     \<lparr>GetProperty_InstanceLuid = Done luid,
      GetProperty_HardwareID =
        Done \<lparr>vendorID = 0x10DE, deviceID = 0x1EB8, subSysID = 0x12A210DE, revision = 0xA1\<rparr>,
      GetProperty_IsHardware = Done True,
      GetProperty_IsIntegrated = Done integrated,
      GetProperty_IsDetachable = Done False,
      IsAttributeSupported = (\<lambda>attr. attr \<in> set attrs)\<rparr>"

definition example_details :: "int \<Rightarrow> bool \<Rightarrow> bool \<Rightarrow> bool \<Rightarrow> Adapter" where
  "example_details luid integrated display compute =
     \<lparr>InstanceLuid = luid,
      HardwareID = \<lparr>vendorID = 0x10DE, deviceID = 0x1EB8, subSysID = 0x12A210DE, revision = 0xA1\<rparr>,
      IsHardware = True, IsIntegrated = integrated, IsDetachable = False,
      SupportsDisplay = display, SupportsCompute = compute\<rparr>"

definition adapter_full :: IDXCoreAdapter where
  "adapter_full = example_adapter 1 False
     [DXCORE_ADAPTER_ATTRIBUTE_D3D11_GRAPHICS, DXCORE_ADAPTER_ATTRIBUTE_D3D12_GRAPHICS,
      DXCORE_ADAPTER_ATTRIBUTE_D3D12_CORE_COMPUTE]"

definition adapter_compute :: IDXCoreAdapter where
  "adapter_compute = example_adapter 2 False [DXCORE_ADAPTER_ATTRIBUTE_D3D12_CORE_COMPUTE]"

definition adapter_legacy :: IDXCoreAdapter where
  "adapter_legacy = example_adapter 3 False [DXCORE_ADAPTER_ATTRIBUTE_D3D11_GRAPHICS]"

definition example_dxcore :: DXCore where
  "example_dxcore =
     \<lparr>DXCoreCreateAdapterFactory = Done (),
      CreateAdapterList = (\<lambda>attr. case attr of
          DXCORE_ADAPTER_ATTRIBUTE_D3D11_GRAPHICS \<Rightarrow> Done [Done adapter_legacy, Done adapter_full]
        | DXCORE_ADAPTER_ATTRIBUTE_D3D12_GRAPHICS \<Rightarrow> Done [Done adapter_full]
        | DXCORE_ADAPTER_ATTRIBUTE_D3D12_CORE_COMPUTE \<Rightarrow> Done [Done adapter_full, Done adapter_compute])\<rparr>"

definition new_enumeration :: AdapterEnumeration where
  "new_enumeration = \<lparr>adapterLists = [], uniqueAdapters = []\<rparr>"

definition adapter_duplicate :: IDXCoreAdapter where
  "adapter_duplicate = example_adapter 1 True
     [DXCORE_ADAPTER_ATTRIBUTE_D3D11_GRAPHICS, DXCORE_ADAPTER_ATTRIBUTE_D3D12_GRAPHICS,
      DXCORE_ADAPTER_ATTRIBUTE_D3D12_CORE_COMPUTE]"

definition duplicate_dxcore :: DXCore where
  "duplicate_dxcore =
     \<lparr>DXCoreCreateAdapterFactory = Done (),
      CreateAdapterList = (\<lambda>attr. case attr of
          DXCORE_ADAPTER_ATTRIBUTE_D3D11_GRAPHICS \<Rightarrow> Done []
        | DXCORE_ADAPTER_ATTRIBUTE_D3D12_GRAPHICS \<Rightarrow> Done [Done adapter_full]
        | DXCORE_ADAPTER_ATTRIBUTE_D3D12_CORE_COMPUTE \<Rightarrow> Done [Done adapter_duplicate])\<rparr>"

definition example_property :: "string \<Rightarrow> VARIANT \<Rightarrow> Win32_PnPDeviceProperty" where
  "example_property keyName data =
     \<lparr>QueryInterface = Done (), Get_KeyName = Done keyName, Get_Data = Done data\<rparr>"

definition example_entity :: "string \<Rightarrow> VARIANT \<Rightarrow> Win32_PnPEntity" where
  "example_entity pnpID luid =
     \<lparr>Get_DeviceID = Done pnpID,
      Get_Description = Done ''NVIDIA Tesla T4'',
      Get_Manufacturer = Done ''NVIDIA'',
      Get_Path = Done ''Win32_PnPEntity.DeviceID'',
      SpawnInstance = Done (),
      CreateStringArray_SafeArrayLock = Done (),
      Put_devicePropertyKeys = Done (),
      ExecMethod_GetDeviceProperties = Done (),
      GetResultObject = Done (),
      Get_deviceProperties = Done (VT_ARRAY_UNKNOWN (Done ())
        [example_property ''DEVPKEY_Device_Driver'' (VT_BSTR ''{4d36e968}'' ),
         example_property ''DEVPKEY_Device_LocationPaths''
           (VT_ARRAY_BSTR (Done ()) [''PCIROOT(0)#PCI(1E00)'']),
         example_property ''{60B193CB-5276-4D0F-96FC-F173ABAD3EC6} 2'' luid])\<rparr>"

definition example_wmi :: "Win32_PnPEntity reply list \<Rightarrow> WMI" where
  "example_wmi enumerator =
     \<lparr>create_instance_IWbemLocator = Done (), ConnectServer = Done (),
      CoSetProxyBlanket = Done (), GetObject_Win32_PnPEntity = Done (),
      GetMethod_GetDeviceProperties = Done (), ExecQuery = (\<lambda>query. Done enumerator)\<rparr>"

definition example_device :: "string \<Rightarrow> Adapter \<Rightarrow> Device" where
  "example_device pnpID adapter =
     \<lparr>DeviceAdapter = adapter, ID = pnpID, Description = ''NVIDIA Tesla T4'',
      DriverRegistryKey = ''HKEY_LOCAL_MACHINE'' @ [backslash] @ ''SYSTEM'' @ [backslash]
        @ ''CurrentControlSet'' @ [backslash] @ ''Control'' @ [backslash] @ ''Class''
        @ [backslash] @ ''{4d36e968}'',
      DriverStorePath = [], LocationPath = ''PCIROOT(0)#PCI(1E00)'',
      RuntimeFiles = [], RuntimeFilesWow64 = [], Vendor = ''NVIDIA''\<rparr>"

definition example_wmi_query :: WmiQuery where
  "example_wmi_query = \<lparr>devPropKeyLUID = ''{60B193CB-5276-4D0F-96FC-F173ABAD3EC6} 2''\<rparr>"

definition class_key_path :: string where
  "class_key_path = ''SYSTEM'' @ [backslash] @ ''CurrentControlSet'' @ [backslash] @ ''Control''
     @ [backslash] @ ''Class'' @ [backslash] @ ''{4d36e968}'' @ [backslash]"

definition example_SystemRoot :: string where
  "example_SystemRoot = ''C:'' @ [backslash] @ ''Windows''"

definition example_store_path :: string where
  "example_store_path = [backslash] @ ''SystemRoot'' @ [backslash] @ ''System32'' @ [backslash]
     @ ''DriverStore'' @ [backslash] @ ''nv_dispi.inf_amd64''"

definition multi_sz :: "string list \<Rightarrow> string" where
  "multi_sz strings = concat (map (\<lambda>s. s @ [CHR 0x00]) strings) @ [CHR 0x00]"

definition example_value :: "string \<Rightarrow> string list \<Rightarrow> RegValue reply" where
  "example_value name strings =
     Done \<lparr>valueName = name, valueType = 7, valueData = multi_sz strings,
           dataBufsize = 2 * length (multi_sz strings)\<rparr>"

definition example_drivers :: Drivers where
  "example_drivers =
     \<lparr>D3DKMTOpenAdapterFromLuid = (\<lambda>luid. Done ()),
      D3DKMTQueryAdapterInfo = (\<lambda>luid trailingBuffer.
        if trailingBuffer < 2 * length example_store_path + 2
        then Done \<lparr>Status = D3DDDI_QUERYREGISTRY_STATUS_BUFFER_OVERFLOW,
                    OutputValueSize = 2 * length example_store_path + 2, OutputString = []\<rparr>
        else Done \<lparr>Status = D3DDDI_QUERYREGISTRY_STATUS_SUCCESS,
                    OutputValueSize = 2 * length example_store_path + 2,
                    OutputString = example_store_path\<rparr>),
      GetEnvironmentVariableW_SystemRoot = example_SystemRoot,
      RegOpenKeyExW = (\<lambda>root path.
        if root = ''HKEY_LOCAL_MACHINE'' \<and> path = class_key_path @ ''CopyToVmOverwrite''
        then Done [example_value ''cuda'' [''nvcuda_loader64.dll'', ''nvcuda.dll''],
                   example_value ''ml'' [''nvml_loader.dll'', ''nvml.dll'']]
        else if root = ''HKEY_LOCAL_MACHINE'' \<and> path = class_key_path @ ''CopyToVmWhenNewer''
        then Done [example_value ''cuda'' [''compat'' @ [backslash] @ ''nvcuda.dll''],
                   example_value ''enc'' [''nvEncodeAPI64.dll'']]
        else if root = ''HKEY_LOCAL_MACHINE'' \<and> path = class_key_path @ ''CopyToVmWhenNewerWow64''
        then Done [example_value ''cuda'' [''nvcuda_loader32.dll'', ''nvcuda.dll'']]
        else Failed ''The system cannot find the file specified.'')\<rparr>"

definition example_files :: "RuntimeFile list" where
  "example_files =
     [\<lparr>SourcePath = ''nvcuda_loader64.dll'', DestinationFilename = ''nvcuda.dll''\<rparr>,
      \<lparr>SourcePath = ''nvml_loader.dll'', DestinationFilename = ''nvml.dll''\<rparr>,
      \<lparr>SourcePath = ''nvEncodeAPI64.dll'', DestinationFilename = ''nvEncodeAPI64.dll''\<rparr>]"

definition example_files_Wow64 :: "RuntimeFile list" where
  "example_files_Wow64 =
     [\<lparr>SourcePath = ''nvcuda_loader32.dll'', DestinationFilename = ''nvcuda.dll''\<rparr>]"

definition example_platform :: "Win32_PnPEntity reply list \<Rightarrow> Platform" where
  "example_platform enumerator =
     \<lparr>dxcore = example_dxcore, wmi_service = example_wmi enumerator, drivers = example_drivers\<rparr>"

definition example_resolved :: Device where
  "example_resolved =
     (example_device ''PCI-A'' (example_details 1 False True True))
       \<lparr>DriverStorePath := ''C:'' @ [backslash] @ ''Windows'' @ [backslash] @ ''System32''
          @ [backslash] @ ''DriverStore'' @ [backslash] @ ''nv_dispi.inf_amd64'',
        RuntimeFiles := example_files, RuntimeFilesWow64 := example_files_Wow64\<rparr>"

definition discovery_entities :: "Win32_PnPEntity reply list" where
  "discovery_entities = [Done (example_entity ''PCI-A'' (VT_I8 1))]"

definition unopenable_drivers :: Drivers where
  "unopenable_drivers = example_drivers\<lparr>D3DKMTOpenAdapterFromLuid :=
     (\<lambda>luid. Failed ''An invalid parameter was passed to a service or function.'')\<rparr>"

definition failing_dxcore :: DXCore where
  "failing_dxcore = example_dxcore\<lparr>CreateAdapterList := (\<lambda>attr. Failed ''Unspecified error'')\<rparr>"

definition factoryless_dxcore :: DXCore where
  "factoryless_dxcore = example_dxcore\<lparr>DXCoreCreateAdapterFactory := Failed ''Unspecified error''\<rparr>"

definition discovery_platform :: Platform where
  "discovery_platform =
     \<lparr>dxcore = example_dxcore, wmi_service = example_wmi discovery_entities,
      drivers = example_drivers\<rparr>"

definition resolution_failure_platform :: Platform where
  "resolution_failure_platform =
     \<lparr>dxcore = example_dxcore, wmi_service = example_wmi discovery_entities,
      drivers = unopenable_drivers\<rparr>"

definition enumeration_failure_platform :: Platform where
  "enumeration_failure_platform =
     \<lparr>dxcore = failing_dxcore, wmi_service = example_wmi discovery_entities,
      drivers = example_drivers\<rparr>"

definition construction_failure_platform :: Platform where
  "construction_failure_platform =
     \<lparr>dxcore = factoryless_dxcore, wmi_service = example_wmi discovery_entities,
      drivers = example_drivers\<rparr>"

definition ready_enumeration :: AdapterEnumeration where
  "ready_enumeration =
     \<lparr>adapterLists = [Some [Done adapter_legacy, Done adapter_full], Some [Done adapter_full],
                      Some [Done adapter_full, Done adapter_compute]],
      uniqueAdapters = [(1, example_details 1 False True True),
                        (2, example_details 2 False False False),
                        (3, example_details 3 False True False)]\<rparr>"

definition ready_session :: DeviceDiscoveryImp where
  "ready_session =
     \<lparr>devices = [example_resolved], lastError = [],
      enumeration = Some ready_enumeration, wmi_query = Some example_wmi_query\<rparr>"

definition failed_session :: DeviceDiscoveryImp where
  "failed_session =
     \<lparr>devices = [example_device ''PCI-A'' (example_details 1 False True True)],
      lastError = ''D3DKMTOpenAdapterFromLuid failed to open adapter with LUID 1: ''
        @ ''An invalid parameter was passed to a service or function.''
        @ '' [RegistryQuery.cpp:157 RegistryQuery::FillDriverDetails]'',
      enumeration = Some ready_enumeration, wmi_query = Some example_wmi_query\<rparr>"

definition enumeration_failed_session :: DeviceDiscoveryImp where
  "enumeration_failed_session =
     \<lparr>devices = [example_resolved],
      lastError = ''IDXCoreAdapterFactory::CreateAdapterList() failed for attribute ''
        @ ''DXCORE_ADAPTER_ATTRIBUTE_D3D11_GRAPHICS: Unspecified error''
        @ '' [AdapterEnumeration.cpp:34 AdapterEnumeration::EnumerateAdapters]'',
      enumeration = Some \<lparr>adapterLists = [None], uniqueAdapters = []\<rparr>,
      wmi_query = Some example_wmi_query\<rparr>"

definition construction_failed_session :: DeviceDiscoveryImp where
  "construction_failed_session =
     \<lparr>devices = [],
      lastError = ''DXCoreCreateAdapterFactory failed: Unspecified error''
        @ '' [AdapterEnumeration.cpp:10 AdapterEnumeration::AdapterEnumeration]'',
      enumeration = None, wmi_query = None\<rparr>"

section \<open>Lemmas about the enumeration\<close>

lemmas example_defs = example_adapter_def example_details_def adapter_full_def adapter_compute_def
  adapter_legacy_def example_dxcore_def new_enumeration_def

lemmas enum_defs = EnumerateAdapters_def create_lists_def ENUMERATE_ADAPTERS_def
  ExtractAdapterDetails_def check_throw_def filter_mismatch_def

lemmas spec_defs = candidates_def queried_attributes_def survives_def

lemma set_map_insert: "set (map_insert kv m) \<subseteq> insert kv (set m)"
  by (induction kv m rule: map_insert.induct) auto

lemma fst_set_map_insert: "fst ` set (map_insert kv m) = insert (fst kv) (fst ` set m)"
  by (induction kv m rule: map_insert.induct) auto

lemma sorted_map_insert:
  "sorted_wrt (<) (map fst m) \<Longrightarrow> sorted_wrt (<) (map fst (map_insert kv m))"
  for m :: "('k::linorder \<times> 'v) list"
  by (induction kv m rule: map_insert.induct) (auto simp: fst_set_map_insert)

lemma map_of_sorted_less:
  "sorted_wrt (<) (map fst m) \<Longrightarrow> \<forall>k' \<in> fst ` set m. (k::'k::linorder) < k' \<Longrightarrow> map_of m k = None"
  by (induction m) (auto simp: map_of_eq_None_iff)

lemma map_of_map_insert:
  "sorted_wrt (<) (map fst m) \<Longrightarrow>
   map_of (map_insert (k, v) m) k' =
     (if k' = k \<and> map_of m k = None then Some v else map_of m k')"
proof (induction "(k, v)" m rule: map_insert.induct)
  case 1
  then show ?case by simp
next
  case (2 k1 v1 m)
  show ?case
  proof (cases "k = k1")
    case True
    then show ?thesis by simp
  next
    case neq: False
    show ?thesis
    proof (cases "k < k1")
      case True
      have "map_of m k = None"
        using 2(2) True by (intro map_of_sorted_less) auto
      with True neq show ?thesis by auto
    next
      case False
      with neq 2 show ?thesis by auto
    qed
  qed
qed

lemma process_adapters_insert_all:
  "process_adapters flt ii idt n rs u = (None, u') \<Longrightarrow>
   u' = insert_all (surviving flt ii idt rs) u"
proof (induction rs arbitrary: n u)
  case Nil
  then show ?case by (simp add: insert_all_def)
next
  case (Cons r rs)
  then show ?case
    by (auto simp: insert_all_def survives_def split: reply.splits sum.splits if_splits)
qed


lemma surviving_append:
  "surviving flt ii idt (xs @ ys) = surviving flt ii idt xs @ surviving flt ii idt ys"
  by (induction xs) (auto split: reply.splits sum.splits)

lemma insert_all_append: "insert_all (xs @ ys) u = insert_all ys (insert_all xs u)"
  by (simp add: insert_all_def)

lemma process_lists_insert_all:
  "process_lists flt ii idt (map Some ls) u = (None, u') \<Longrightarrow>
   u' = insert_all (surviving flt ii idt (concat ls)) u"
proof (induction ls arbitrary: u)
  case Nil
  then show ?case by (simp add: insert_all_def)
next
  case (Cons l ls)
  from Cons.prems obtain u1 where
    first: "process_adapters flt ii idt 0 l u = (None, u1)" and
    rest: "process_lists flt ii idt (map Some ls) u1 = (None, u')"
    by (auto split: prod.splits option.splits)
  from first have "u1 = insert_all (surviving flt ii idt l) u"
    by (rule process_adapters_insert_all)
  with Cons.IH [OF rest] show ?case
    by (simp add: surviving_append insert_all_append)
qed

lemma ENUMERATE_ADAPTERS_None:
  "ENUMERATE_ADAPTERS X attr en = (None, en1) \<Longrightarrow>
   (\<exists>l. CreateAdapterList X attr = Done l) \<and>
   en1 = en\<lparr>adapterLists := adapterLists en @ [Some (list_of_reply (CreateAdapterList X attr))]\<rparr>"
  by (auto simp: ENUMERATE_ADAPTERS_def split: reply.splits)

lemma ENUMERATE_ADAPTERS_unique:
  "uniqueAdapters (snd (ENUMERATE_ADAPTERS X attr en)) = uniqueAdapters en"
  by (auto simp: ENUMERATE_ADAPTERS_def split: reply.splits)

lemma create_lists_unique:
  "uniqueAdapters (snd (create_lists X flt en)) = uniqueAdapters en"
  by (auto simp: create_lists_def ENUMERATE_ADAPTERS_def split: reply.splits prod.splits option.splits)

lemma create_lists_None:
  assumes "create_lists X flt en = (None, en1)"
  shows "adapterLists en1 =
           adapterLists en @ map (\<lambda>attr. Some (list_of_reply (CreateAdapterList X attr)))
             (queried_attributes flt)"
    and "uniqueAdapters en1 = uniqueAdapters en"
    and "\<forall>attr \<in> set (queried_attributes flt). \<exists>l. CreateAdapterList X attr = Done l"
  using assms
  by (auto simp: create_lists_def queried_attributes_def
      split: if_splits prod.splits option.splits dest!: ENUMERATE_ADAPTERS_None)

lemma EnumerateAdapters_None:
  assumes "EnumerateAdapters X flt ii idt en = (None, en')"
  shows "uniqueAdapters en' = insert_all (surviving flt ii idt (candidates X flt)) []"
    and "adapterLists en' =
           map (\<lambda>attr. Some (list_of_reply (CreateAdapterList X attr))) (queried_attributes flt)"
    and "\<forall>attr \<in> set (queried_attributes flt). \<exists>l. CreateAdapterList X attr = Done l"
proof -
  from assms obtain en1 u where
    c: "create_lists X flt (en\<lparr>adapterLists := [], uniqueAdapters := []\<rparr>) = (None, en1)" and
    p: "process_lists flt ii idt (adapterLists en1) (uniqueAdapters en1) = (None, u)" and
    e: "en' = en1\<lparr>uniqueAdapters := u\<rparr>"
    by (auto simp: EnumerateAdapters_def split: prod.splits option.splits)
  note cl = create_lists_None [OF c]
  from cl(1) have al: "adapterLists en1 =
      map Some (map (\<lambda>attr. list_of_reply (CreateAdapterList X attr)) (queried_attributes flt))"
    by simp
  from p [unfolded al] have "u = insert_all (surviving flt ii idt (candidates X flt)) (uniqueAdapters en1)"
    unfolding candidates_def by (rule process_lists_insert_all)
  with cl(2) e show "uniqueAdapters en' = insert_all (surviving flt ii idt (candidates X flt)) []"
    by simp
  from cl(1) e show "adapterLists en' =
           map (\<lambda>attr. Some (list_of_reply (CreateAdapterList X attr))) (queried_attributes flt)"
    by simp
  from cl(3) show "\<forall>attr \<in> set (queried_attributes flt). \<exists>l. CreateAdapterList X attr = Done l" .
qed

lemma insert_all_sorted:
  "sorted_wrt (<) (map fst u) \<Longrightarrow> sorted_wrt (<) (map fst (insert_all ds u))"
  by (induction ds arbitrary: u) (auto simp: insert_all_def sorted_map_insert)

lemma map_of_insert_all:
  "sorted_wrt (<) (map fst u) \<Longrightarrow>
   map_of (insert_all ds u) k =
     (case map_of u k of Some a \<Rightarrow> Some a | None \<Rightarrow> find (\<lambda>d. InstanceLuid d = k) ds)"
proof (induction ds arbitrary: u)
  case Nil
  then show ?case by (simp add: insert_all_def split: option.splits)
next
  case (Cons d ds)
  have "insert_all (d # ds) u = insert_all ds (map_insert (InstanceLuid d, d) u)"
    by (simp add: insert_all_def)
  with Cons.IH [OF sorted_map_insert [OF Cons.prems]] Cons.prems show ?case
    by (auto simp: map_of_map_insert split: option.splits)
qed

lemma strict_sorted_distinct: "sorted_wrt (<) xs \<Longrightarrow> distinct xs" for xs :: "'a::linorder list"
  using strict_sorted_iff by blast

text \<open>entries are surviving extracted details, whatever the outcome\<close>

lemma process_adapters_all:
  assumes "\<forall>(k, d) \<in> set u. Q k d"
    and "\<And>a d. ExtractAdapterDetails a = Inr d \<Longrightarrow> survives flt ii idt d \<Longrightarrow> Q (InstanceLuid d) d"
  shows "\<forall>(k, d) \<in> set (snd (process_adapters flt ii idt n rs u)). Q k d"
  using assms(1)
proof (induction rs arbitrary: n u)
  case Nil
  then show ?case by simp
next
  case (Cons r rs)
  show ?case
  proof (cases r)
    case (Failed t)
    with Cons.prems show ?thesis by simp
  next
    case (Done a)
    show ?thesis
    proof (cases "ExtractAdapterDetails a")
      case (Inl e)
      with Done Cons.prems show ?thesis by simp
    next
      case (Inr d)
      show ?thesis
      proof (cases "survives flt ii idt d")
        case True
        then have "\<forall>(k, d') \<in> set (map_insert (InstanceLuid d, d) u). Q k d'"
          using Cons.prems assms(2) [OF Inr True] set_map_insert [of "(InstanceLuid d, d)" u]
          by auto
        from Cons.IH [OF this] True Done Inr show ?thesis
          by (auto simp: survives_def)
      next
        case False
        with Cons.IH [OF Cons.prems] Done Inr show ?thesis
          by (auto simp: survives_def)
      qed
    qed
  qed
qed

lemma process_lists_all:
  assumes "\<forall>(k, d) \<in> set u. Q k d"
    and "\<And>a d. ExtractAdapterDetails a = Inr d \<Longrightarrow> survives flt ii idt d \<Longrightarrow> Q (InstanceLuid d) d"
  shows "\<forall>(k, d) \<in> set (snd (process_lists flt ii idt ls u)). Q k d"
  using assms(1)
proof (induction ls arbitrary: u)
  case Nil
  then show ?case by simp
next
  case (Cons l ls)
  show ?case
  proof (cases l)
    case None
    with Cons.prems show ?thesis by simp
  next
    case (Some rs)
    have step: "\<forall>(k, d) \<in> set (snd (process_adapters flt ii idt 0 rs u)). Q k d"
      using Cons.prems assms(2) by (rule process_adapters_all)
    show ?thesis
    proof (cases "process_adapters flt ii idt 0 rs u")
      case (Pair r u1)
      with step Cons.IH [of u1] Some show ?thesis
        by (cases r) auto
    qed
  qed
qed

lemma EnumerateAdapters_all:
  assumes "\<And>a d. ExtractAdapterDetails a = Inr d \<Longrightarrow> survives flt ii idt d \<Longrightarrow> Q (InstanceLuid d) d"
  shows "\<forall>(k, d) \<in> set (uniqueAdapters (snd (EnumerateAdapters X flt ii idt en))). Q k d"
proof (cases "create_lists X flt (en\<lparr>adapterLists := [], uniqueAdapters := []\<rparr>)")
  case (Pair r en1)
  have u1: "uniqueAdapters en1 = []"
    using create_lists_unique [of X flt "en\<lparr>adapterLists := [], uniqueAdapters := []\<rparr>"] Pair
    by simp
  show ?thesis
  proof (cases r)
    case (Some e)
    with Pair u1 show ?thesis by (simp add: EnumerateAdapters_def)
  next
    case None
    have "\<forall>(k, d) \<in> set (snd (process_lists flt ii idt (adapterLists en1) [])). Q k d"
      by (rule process_lists_all) (use assms in auto)
    with Pair None u1 show ?thesis
      by (auto simp: EnumerateAdapters_def split: prod.splits)
  qed
qed

lemma ExtractAdapterDetails_flags:
  "ExtractAdapterDetails a = Inr d \<Longrightarrow>
   SupportsCompute d = IsAttributeSupported a DXCORE_ADAPTER_ATTRIBUTE_D3D12_GRAPHICS \<and>
   SupportsDisplay d = (IsAttributeSupported a DXCORE_ADAPTER_ATTRIBUTE_D3D11_GRAPHICS \<or>
     IsAttributeSupported a DXCORE_ADAPTER_ATTRIBUTE_D3D12_GRAPHICS)"
  by (auto simp: ExtractAdapterDetails_def check_throw_def split: reply.splits)

lemma surviving_member:
  "Done a \<in> set rs \<Longrightarrow> ExtractAdapterDetails a = Inr d \<Longrightarrow> survives flt ii idt d \<Longrightarrow>
   d \<in> set (surviving flt ii idt rs)"
  by (induction rs) (auto split: reply.splits sum.splits)

lemma fst_set_insert_all:
  "fst ` set (insert_all ds u) = InstanceLuid ` set ds \<union> fst ` set u"
  by (induction ds arbitrary: u) (auto simp: insert_all_def fst_set_map_insert)

section \<open>Lemmas about the correlation\<close>

lemma DevPropKeyToString_AdapterLuid:
  "DevPropKeyToString DEVPKEY_Device_AdapterLuid = ''{60B193CB-5276-4D0F-96FC-F173ABAD3EC6} 2''"
  by (simp add: DevPropKeyToString_def DEVPKEY_Device_AdapterLuid_def format_hex_def)

lemma WmiQuery_ctor_example:
  "WmiQuery_ctor (example_wmi es) = Inr \<lparr>devPropKeyLUID = ''{60B193CB-5276-4D0F-96FC-F173ABAD3EC6} 2''\<rparr>"
  by (simp add: WmiQuery_ctor_def example_wmi_def check_throw_def DevPropKeyToString_AdapterLuid)

lemma stoll_examples:
  "stoll ''4096'' = Inr 4096" "stoll ''  -17x'' = Inr (-17)" "stoll ''not a number'' = Inl invalid_argument"
  "stoll '''' = Inl invalid_argument" "stoll ''9223372036854775808'' = Inl out_of_range"
  "stoll ''-9223372036854775808'' = Inr (-9223372036854775808)"
  by (simp_all add: stoll_def isspace_def isdigit_def digits_value_def digit_value_def Let_def)

lemma ExtractDeviceDetails_example:
  "ExtractDeviceDetails \<lparr>devPropKeyLUID = ''{60B193CB-5276-4D0F-96FC-F173ABAD3EC6} 2''\<rparr>
     (example_entity ''PCI'' (VT_I8 1)) =
   Inr (example_device ''PCI'' (Adapter_default\<lparr>InstanceLuid := 1\<rparr>))"
  by (simp add: ExtractDeviceDetails_def example_entity_def example_property_def check_throw_def
      example_device_def Device_default_def)

lemma ExtractDeviceDetails_example2:
  "ExtractDeviceDetails \<lparr>devPropKeyLUID = ''{60B193CB-5276-4D0F-96FC-F173ABAD3EC6} 2''\<rparr>
     (example_entity ''PCI'' (VT_BSTR ''not a number'')) = Inl invalid_argument"
  by (simp add: ExtractDeviceDetails_def example_entity_def example_property_def check_throw_def
      example_device_def Device_default_def stoll_examples)

lemmas registry_defs = FillDriverDetails_def process_all_runtime_files_def ProcessRuntimeFiles_def
  OpenKeyFromString_def EnumerateMultiStringValues_def ExtractMultiStringValue_def
  RuntimeFile_ctor_def expand_SystemRoot_def check_throw_def rootKeys_def c_string_def
  REG_MULTI_SZ_def filename_def is_slash_def

lemmas registry_example_defs = example_drivers_def example_value_def multi_sz_def
  class_key_path_def example_SystemRoot_def example_store_path_def example_files_def
  example_files_Wow64_def

lemma match_devices_result:
  "match_devices wmi adapters enumerator acc = Inr ds \<Longrightarrow>
   length ds \<le> length acc + length enumerator \<and>
   (\<forall>d \<in> set ds. d \<in> set acc \<or> (\<exists>k. map_of adapters k = Some (DeviceAdapter d)))"
proof (induction enumerator arbitrary: acc)
  case Nil
  then show ?case by simp
next
  case (Cons r rs)
  from Cons.prems obtain entity details where
    r: "r = Done entity" and x: "ExtractDeviceDetails wmi entity = Inr details"
    by (auto simp: check_throw_def split: reply.splits sum.splits)
  show ?case
  proof (cases "map_of adapters (InstanceLuid (DeviceAdapter details))")
    case None
    with Cons.prems r x have "match_devices wmi adapters rs acc = Inr ds"
      by (simp add: check_throw_def)
    from Cons.IH [OF this] show ?thesis by auto
  next
    case (Some a)
    with Cons.prems r x have
      "match_devices wmi adapters rs (acc @ [details\<lparr>DeviceAdapter := a\<rparr>]) = Inr ds"
      by (simp add: check_throw_def)
    from Cons.IH [OF this] Some show ?thesis by auto
  qed
qed

lemmas wmi_defs = GetDevicesForAdapters_def ExtractDeviceDetails_def check_throw_def
  Device_default_def Adapter_default_def stoll_def isspace_def isdigit_def digits_value_def
  digit_value_def

lemmas wmi_example_defs = example_wmi_def example_wmi_query_def example_entity_def
  example_property_def example_device_def example_details_def

lemmas session_defs = DeviceDiscovery_DiscoverDevices_def DiscoverDevices_def
  DiscoverDevices_try_def create_helpers_def HaveDevices_def CreateDeviceDiscoveryInstance_def
  AdapterEnumeration_ctor_def WmiQuery_ctor_def GetUniqueAdapters_def DeviceFilter_of_int_def
  RETURN_ERROR_def RETURN_SUCCESS_def

section \<open>Lemmas about the driver details\<close>

lemma add_runtime_files_add_unique:
  "add_runtime_files files list = add_unique (new_files files) list"
  by (induction files list rule: add_runtime_files.induct)
    (auto simp: new_files_def runtime_file_of_def List.map_filter_simps Let_def split: list.splits)

lemma add_unique_append:
  "add_unique (xs @ ys) list = add_unique ys (add_unique xs list)"
  by (induction xs arbitrary: list) auto

lemma add_unique_distinct:
  "distinct (map DestinationFilename list) \<Longrightarrow>
   distinct (map DestinationFilename (add_unique entries list))"
proof (induction entries arbitrary: list)
  case Nil
  then show ?case by simp
next
  case (Cons f fs)
  show ?case
  proof (cases "find (\<lambda>g. DestinationFilename g = DestinationFilename f) list")
    case None
    then have "distinct (map DestinationFilename (list @ [f]))"
      using Cons.prems by (auto simp: find_None_iff)
    from Cons.IH [OF this] None show ?thesis by simp
  next
    case (Some g)
    with Cons.IH [OF Cons.prems] show ?thesis by simp
  qed
qed

lemma add_unique_prefix: "prefix list (add_unique entries list)"
proof (induction entries arbitrary: list)
  case Nil
  then show ?case by simp
next
  case (Cons f fs)
  have "prefix list (list @ [f])" by simp
  then have "prefix list (add_unique fs (list @ [f]))"
    using Cons [of "list @ [f]"] by (rule prefix_order.trans)
  with Cons [of list] show ?case by simp
qed

lemma find_append:
  "find P (xs @ ys) = (case find P xs of None \<Rightarrow> find P ys | Some x \<Rightarrow> Some x)"
  by (induction xs) auto

lemma find_add_unique:
  "find (\<lambda>f. DestinationFilename f = n) (add_unique entries list) =
   find (\<lambda>f. DestinationFilename f = n) (list @ entries)"
proof (induction entries arbitrary: list)
  case Nil
  then show ?case by simp
next
  case (Cons f fs)
  show ?case
  proof (cases "find (\<lambda>g. DestinationFilename g = DestinationFilename f) list")
    case None
    with Cons [of "list @ [f]"] show ?thesis by simp
  next
    case (Some g)
    with Cons [of list] show ?thesis
      by (auto simp: find_append split: option.splits)
  qed
qed

lemma check_throw_Inl:
  "check_throw r at text rest = Inl e \<Longrightarrow>
   (\<exists>t. r = Failed t \<and> e = Thrown (Wrap (CreateError t at) text)) \<or>
   (\<exists>v. r = Done v \<and> rest v = Inl e)"
  by (auto simp: check_throw_def split: reply.splits)

lemma OpenKeyFromString_Thrown:
  "OpenKeyFromString K key = Inl e \<Longrightarrow> \<exists>err. e = Thrown err"
  by (auto simp: OpenKeyFromString_def split: option.splits if_splits dest!: check_throw_Inl)

lemma enumerate_values_Thrown:
  "enumerate_values results vs = Inl e \<Longrightarrow> \<exists>err. e = Thrown err"
proof (induction results arbitrary: vs)
  case Nil
  then show ?case by simp
next
  case (Cons r rs)
  then show ?case
    by (auto dest!: check_throw_Inl split: if_splits)
qed

lemma ProcessRuntimeFiles_eq:
  "ProcessRuntimeFiles K key isWow64 device =
     (None,
      if isWow64
      then device\<lparr>RuntimeFilesWow64 :=
             add_unique (registry_entries K device key) (RuntimeFilesWow64 device)\<rparr>
      else device\<lparr>RuntimeFiles :=
             add_unique (registry_entries K device key) (RuntimeFiles device)\<rparr>)"
proof (cases "OpenKeyFromString K (DriverRegistryKey device @ [backslash] @ key)")
  case (Inl e)
  with OpenKeyFromString_Thrown [OF Inl] show ?thesis
    by (auto simp: ProcessRuntimeFiles_def registry_entries_def)
next
  case opened: (Inr registryKey)
  show ?thesis
  proof (cases "EnumerateMultiStringValues registryKey")
    case (Inl e)
    with enumerate_values_Thrown [of registryKey "[]" e] opened show ?thesis
      by (auto simp: ProcessRuntimeFiles_def registry_entries_def EnumerateMultiStringValues_def)
  next
    case (Inr files)
    with opened show ?thesis
      by (simp add: ProcessRuntimeFiles_def registry_entries_def add_runtime_files_add_unique)
  qed
qed

lemma registry_entries_update:
  "registry_entries K (device\<lparr>RuntimeFiles := files\<rparr>) key = registry_entries K device key"
  "registry_entries K (device\<lparr>RuntimeFilesWow64 := files\<rparr>) key = registry_entries K device key"
  "registry_entries K (device\<lparr>DriverStorePath := path\<rparr>) key = registry_entries K device key"
  by (simp_all add: registry_entries_def)

lemma process_all_runtime_files_eq:
  "process_all_runtime_files K device =
     (None,
      device\<lparr>RuntimeFiles :=
               add_unique (registry_entries K device ''CopyToVmOverwrite''
                 @ registry_entries K device ''CopyToVmWhenNewer'') (RuntimeFiles device),
             RuntimeFilesWow64 :=
               add_unique (registry_entries K device ''CopyToVmOverwriteWow64''
                 @ registry_entries K device ''CopyToVmWhenNewerWow64'')
                 (RuntimeFilesWow64 device)\<rparr>)"
  by (simp add: process_all_runtime_files_def ProcessRuntimeFiles_eq add_unique_append
      registry_entries_update)

lemma PerformQuery_Thrown:
  assumes "PerformQuery query trailingBuffer = Some (Inl e)"
  shows "\<exists>err. e = Thrown err"
proof -
  have "\<forall>e'. (Inl e :: abrupt + D3DDDI_QUERYREGISTRY_INFO) = Inl e' \<longrightarrow> (\<exists>err. e' = Thrown err)"
  proof (rule PerformQuery.raw_induct
      [where P = "\<lambda>q n r. \<forall>e. r = Inl e \<longrightarrow> (\<exists>err. e = Thrown err)"])
    show "PerformQuery query trailingBuffer = Some (Inl e)" by (rule assms)
  next
    fix rec q n r
    assume IH: "\<And>n b y. rec n b = Some y \<Longrightarrow> \<forall>e. y = Inl e \<longrightarrow> (\<exists>err. e = Thrown err)"
      and step: "(case q n of
          Failed t \<Rightarrow>
            Some (Inl (Thrown (Wrap
              (CreateError t (''D3DHelpers.cpp'', ''QueryD3DRegistryInfo::PerformQuery'', 49))
              ''D3DKMTQueryAdapterInfo failed'')))
        | Done RegistryInfo \<Rightarrow>
            if Status RegistryInfo = D3DDDI_QUERYREGISTRY_STATUS_BUFFER_OVERFLOW
            then rec q (OutputValueSize RegistryInfo)
            else Some (Inr RegistryInfo)) = Some r"
    show "\<forall>e. r = Inl e \<longrightarrow> (\<exists>err. e = Thrown err)"
    proof (cases "q n")
      case (Failed t)
      with step show ?thesis by auto
    next
      case (Done info)
      with step IH show ?thesis
        by (cases "Status info = D3DDDI_QUERYREGISTRY_STATUS_BUFFER_OVERFLOW") auto
    qed
  qed
  then show ?thesis by blast
qed

lemma FillDriverDetails_example:
  "FillDriverDetails example_drivers (example_device ''PCI-A'' (example_details 1 False True True)) =
   Some (None, example_resolved)"
  by (simp add: PerformQuery.simps registry_defs registry_example_defs example_device_def
      example_details_def backslash_def example_resolved_def)

lemma registry_entries_example:
  "registry_entries example_drivers (example_device ''PCI-A'' (example_details 1 False True True))
     ''CopyToVmOverwrite'' =
     [\<lparr>SourcePath = ''nvcuda_loader64.dll'', DestinationFilename = ''nvcuda.dll''\<rparr>,
      \<lparr>SourcePath = ''nvml_loader.dll'', DestinationFilename = ''nvml.dll''\<rparr>]"
  "registry_entries example_drivers (example_device ''PCI-A'' (example_details 1 False True True))
     ''CopyToVmWhenNewer'' =
     [\<lparr>SourcePath = ''compat'' @ [backslash] @ ''nvcuda.dll'', DestinationFilename = ''nvcuda.dll''\<rparr>,
      \<lparr>SourcePath = ''nvEncodeAPI64.dll'', DestinationFilename = ''nvEncodeAPI64.dll''\<rparr>]"
  "registry_entries example_drivers (example_device ''PCI-A'' (example_details 1 False True True))
     ''CopyToVmOverwriteWow64'' = []"
  "registry_entries example_drivers (example_device ''PCI-A'' (example_details 1 False True True))
     ''CopyToVmWhenNewerWow64'' =
     [\<lparr>SourcePath = ''nvcuda_loader32.dll'', DestinationFilename = ''nvcuda.dll''\<rparr>]"
  by (simp_all add: registry_entries_def new_files_def runtime_file_of_def List.map_filter_simps
      registry_defs registry_example_defs example_device_def example_details_def backslash_def)

section \<open>Lemmas about the discovery session\<close>

lemma benign_simps [simp]:
  "benign (Inr v)" "benign (Inl e) = (\<not> is_runtime_error e)"
  by (simp_all add: benign_def)

lemma benignD: "benign x \<Longrightarrow> x = Inl e \<Longrightarrow> \<not> is_runtime_error e"
  by (simp add: benign_def)

lemma check_throw_benign: "(\<And>v. benign (rest v)) \<Longrightarrow> benign (check_throw r at text rest)"
  by (simp add: check_throw_def split: reply.splits)

lemma stoll_benign: "benign (stoll str)"
  by (simp add: stoll_def Let_def)

lemma process_properties_benign: "benign (process_properties wmi elements details)"
proof (induction elements arbitrary: details)
  case Nil
  then show ?case by simp
next
  case (Cons element elements)
  have luid: "benign (case stoll bstrVal of
                    Inl e \<Rightarrow> Inl e
                  | Inr v \<Rightarrow>
                      process_properties wmi elements
                        (details\<lparr>DeviceAdapter := (DeviceAdapter details)\<lparr>InstanceLuid := v\<rparr>\<rparr>))"
    for bstrVal
    using stoll_benign [of bstrVal] Cons.IH by (cases "stoll bstrVal") simp_all
  show ?case
    unfolding process_properties.simps
    by (intro check_throw_benign)
      (simp add: Cons.IH luid check_throw_benign split: reply.splits VARIANT.splits list.splits)
qed

lemma ExtractDeviceDetails_benign: "benign (ExtractDeviceDetails wmi device)"
  unfolding ExtractDeviceDetails_def
  by (intro check_throw_benign)
    (simp add: process_properties_benign check_throw_benign split: deviceProperties_VARIANT.splits)

lemma match_devices_benign: "benign (match_devices wmi adapters enumerator acc)"
proof (induction enumerator arbitrary: acc)
  case Nil
  then show ?case by simp
next
  case (Cons r rs)
  have "benign (case ExtractDeviceDetails wmi device of
        Inl e \<Rightarrow> Inl e
      | Inr details \<Rightarrow>
          (case map_of adapters (InstanceLuid (DeviceAdapter details)) of
             Some matchingAdapter \<Rightarrow>
               match_devices wmi adapters rs
                 (acc @ [details\<lparr>DeviceAdapter := matchingAdapter\<rparr>])
           | None \<Rightarrow> match_devices wmi adapters rs acc))" for device
    using ExtractDeviceDetails_benign [of wmi device] Cons.IH
    by (cases "ExtractDeviceDetails wmi device") (simp_all split: option.splits)
  then show ?case
    unfolding match_devices.simps by (intro check_throw_benign)
qed

lemma GetDevicesForAdapters_benign: "benign (GetDevicesForAdapters W wmi adapters)"
  by (simp add: GetDevicesForAdapters_def check_throw_benign match_devices_benign)

lemma AdapterEnumeration_ctor_benign: "benign (AdapterEnumeration_ctor X)"
  unfolding AdapterEnumeration_ctor_def by (intro check_throw_benign) simp

lemma WmiQuery_ctor_benign: "benign (WmiQuery_ctor W)"
  unfolding WmiQuery_ctor_def by (intro check_throw_benign) simp

lemma create_helpers_not_runtime:
  "create_helpers P s = (Some e, s1) \<Longrightarrow> is_runtime_error e = False"
  using AdapterEnumeration_ctor_benign [of "dxcore P"] WmiQuery_ctor_benign [of "wmi_service P"]
  by (auto simp: create_helpers_def split: if_splits sum.splits)

lemma ExtractAdapterDetails_benign: "benign (ExtractAdapterDetails a)"
  unfolding ExtractAdapterDetails_def by (intro check_throw_benign) simp

lemma process_adapters_not_runtime:
  "process_adapters flt ii idt n rs u = (Some e, u') \<Longrightarrow> is_runtime_error e = False"
proof (induction rs arbitrary: n u)
  case Nil
  then show ?case by simp
next
  case (Cons r rs)
  show ?case
  proof (cases r)
    case (Failed t)
    with Cons.prems show ?thesis by auto
  next
    case (Done a)
    show ?thesis
    proof (cases "ExtractAdapterDetails a")
      case (Inl x)
      with ExtractAdapterDetails_benign [of a] Done Cons.prems show ?thesis by auto
    next
      case (Inr d)
      with Done Cons.prems have
        "process_adapters flt ii idt (Suc n) rs u = (Some e, u') \<or>
         process_adapters flt ii idt (Suc n) rs (map_insert (InstanceLuid d, d) u) = (Some e, u')"
        by (simp split: if_splits)
      with Cons.IH show ?thesis by blast
    qed
  qed
qed

lemma process_lists_not_runtime:
  "process_lists flt ii idt ls u = (Some e, u') \<Longrightarrow> is_runtime_error e = False"
proof (induction ls arbitrary: u)
  case Nil
  then show ?case by simp
next
  case (Cons l ls)
  then show ?case
    by (cases l) (auto split: prod.splits option.splits dest: process_adapters_not_runtime)
qed

lemma create_lists_Thrown:
  "create_lists X flt en = (Some e, en1) \<Longrightarrow> \<exists>err. e = Thrown err"
  by (auto simp: create_lists_def ENUMERATE_ADAPTERS_def
      split: if_splits prod.splits option.splits reply.splits)

lemma EnumerateAdapters_not_runtime:
  "EnumerateAdapters X flt ii idt en = (Some e, en') \<Longrightarrow> is_runtime_error e = False"
  by (auto simp: EnumerateAdapters_def split: prod.splits option.splits
      dest: create_lists_Thrown process_lists_not_runtime)

lemma GetDevicesForAdapters_not_runtime:
  "GetDevicesForAdapters W wmi adapters = Inl e \<Longrightarrow> is_runtime_error e = False"
  using GetDevicesForAdapters_benign [of W wmi adapters] by simp

lemma FillDriverDetails_Thrown:
  "FillDriverDetails K device = Some (Some e, device') \<Longrightarrow> \<exists>err. e = Thrown err"
  by (auto simp: FillDriverDetails_def Let_def process_all_runtime_files_eq
      split: reply.splits option.splits sum.splits if_splits dest: PerformQuery_Thrown)

lemma fill_all_Thrown:
  "fill_all K ds = Some (Some e, ds') \<Longrightarrow> \<exists>err. e = Thrown err"
proof (induction ds arbitrary: ds')
  case Nil
  then show ?case by simp
next
  case (Cons d ds)
  then show ?case
    by (auto split: option.splits prod.splits dest: FillDriverDetails_Thrown)
qed


lemma DiscoverDevices_try_not_runtime:
  assumes "DiscoverDevices_try P flt ii idt s = Some (Some e, s')"
  shows "is_runtime_error e = False"
proof (cases "create_helpers P s")
  case (Pair r1 s1)
  show ?thesis
  proof (cases r1)
    case (Some e1)
    with Pair assms create_helpers_not_runtime [of P s e1 s1] show ?thesis
      by (simp add: DiscoverDevices_try_def)
  next
    case None
    note h = Pair [unfolded None]
    show ?thesis
    proof (cases "enumeration s1")
      case None
      with h assms show ?thesis by (simp add: DiscoverDevices_try_def)
    next
      case (Some en)
      note en = Some
      obtain r2 en' where ea: "EnumerateAdapters (dxcore P) flt ii idt en = (r2, en')"
        by (cases "EnumerateAdapters (dxcore P) flt ii idt en")
      show ?thesis
      proof (cases r2)
        case (Some e2)
        with h en ea assms EnumerateAdapters_not_runtime [of "dxcore P" flt ii idt en e2 en']
        show ?thesis by (simp add: DiscoverDevices_try_def)
      next
        case None
        note ea = ea [unfolded None]
        show ?thesis
        proof (cases "wmi_query s1")
          case None
          with h en ea assms show ?thesis by (simp add: DiscoverDevices_try_def)
        next
          case (Some w)
          note w = Some
          show ?thesis
          proof (cases "GetDevicesForAdapters (wmi_service P) w (GetUniqueAdapters en')")
            case (Inl e3)
            with h en ea w assms GetDevicesForAdapters_not_runtime [OF Inl]
            show ?thesis by (simp add: DiscoverDevices_try_def)
          next
            case (Inr ds)
            with h en ea w assms obtain ds' where
              "fill_all (drivers P) ds = Some (Some e, ds')"
              by (auto simp: DiscoverDevices_try_def split: option.splits)
            from fill_all_Thrown [OF this] show ?thesis by auto
          qed
        qed
      qed
    qed
  qed
qed

lemmas platform_defs = discovery_platform_def resolution_failure_platform_def
  enumeration_failure_platform_def construction_failure_platform_def

lemmas session_example_defs = ready_session_def failed_session_def
  enumeration_failed_session_def construction_failed_session_def CreateDeviceDiscoveryInstance_def

lemma AdapterEnumeration_ctor_examples:
  "AdapterEnumeration_ctor example_dxcore = Inr new_enumeration"
  "AdapterEnumeration_ctor failing_dxcore = Inr new_enumeration"
  "AdapterEnumeration_ctor factoryless_dxcore =
     Inl (Thrown (Wrap (CreateError ''Unspecified error''
            (''AdapterEnumeration.cpp'', ''AdapterEnumeration::AdapterEnumeration'', 10))
          ''DXCoreCreateAdapterFactory failed''))"
  by (simp_all add: AdapterEnumeration_ctor_def check_throw_def example_dxcore_def
      failing_dxcore_def factoryless_dxcore_def new_enumeration_def)

lemma WmiQuery_ctor_example_query: "WmiQuery_ctor (example_wmi es) = Inr example_wmi_query"
  by (simp add: WmiQuery_ctor_example example_wmi_query_def)

lemma EnumerateAdapters_examples:
  "EnumerateAdapters example_dxcore AllDevices True True en = (None, ready_enumeration)"
  "EnumerateAdapters failing_dxcore AllDevices True True en =
     (Some (Thrown (Wrap (CreateError ''Unspecified error''
        (''AdapterEnumeration.cpp'', ''AdapterEnumeration::EnumerateAdapters'', 34))
        (''IDXCoreAdapterFactory::CreateAdapterList() failed for attribute ''
         @ ''DXCORE_ADAPTER_ATTRIBUTE_D3D11_GRAPHICS''))),
      \<lparr>adapterLists = [None], uniqueAdapters = []\<rparr>)"
  by (simp_all add: example_defs enum_defs ready_enumeration_def failing_dxcore_def)

lemma GetDevicesForAdapters_example:
  "GetDevicesForAdapters (example_wmi discovery_entities)
     example_wmi_query (uniqueAdapters ready_enumeration) =
   Inr [example_device ''PCI-A'' (example_details 1 False True True)]"
  by (simp add: wmi_defs wmi_example_defs ready_enumeration_def discovery_entities_def)

lemma FillDriverDetails_unopenable:
  "FillDriverDetails unopenable_drivers
     (example_device ''PCI-A'' (example_details 1 False True True)) =
     Some (Some (Thrown (Wrap
       (CreateError ''An invalid parameter was passed to a service or function.''
          (''RegistryQuery.cpp'', ''RegistryQuery::FillDriverDetails'', 157))
       (''D3DKMTOpenAdapterFromLuid failed to open adapter with LUID '' @ ''1''))),
       example_device ''PCI-A'' (example_details 1 False True True))"
  by (simp add: FillDriverDetails_def unopenable_drivers_def example_device_def
      example_details_def to_wstring_signed_def)

lemmas discover_defs = DiscoverDevices_def DiscoverDevices_try_def create_helpers_def
  HaveDevices_def GetUniqueAdapters_def RETURN_SUCCESS_def RETURN_ERROR_def

lemmas discover_examples = AdapterEnumeration_ctor_examples WmiQuery_ctor_example_query
  EnumerateAdapters_examples GetDevicesForAdapters_example FillDriverDetails_example
  FillDriverDetails_unopenable

lemmas Pretty_defs = Pretty_def Wrap_def CreateError_def filename_def is_slash_def backslash_def

lemma discover_runs:
  "DiscoverDevices discovery_platform AllDevices True True CreateDeviceDiscoveryInstance =
     Some (Inr True, ready_session)"
  "DiscoverDevices resolution_failure_platform AllDevices True True CreateDeviceDiscoveryInstance =
     Some (Inr False, failed_session)"
  "DiscoverDevices resolution_failure_platform AllDevices True True ready_session =
     Some (Inr False, failed_session)"
  "DiscoverDevices enumeration_failure_platform AllDevices True True ready_session =
     Some (Inr False, enumeration_failed_session)"
  "DiscoverDevices construction_failure_platform AllDevices True True CreateDeviceDiscoveryInstance =
     Some (Inr False, construction_failed_session)"
  by (simp_all add: discover_defs platform_defs session_example_defs discover_examples
      Pretty_defs)


lemma create_helpers_state:
  assumes "create_helpers P s = (r, s1)"
  shows "devices s1 = devices s" "lastError s1 = lastError s"
    "r = None \<Longrightarrow> HaveDevices s1"
    "r \<noteq> None \<Longrightarrow> \<not> HaveDevices s \<and> wmi_query s1 = wmi_query s"
  using assms
  by (auto simp: create_helpers_def HaveDevices_def split: if_splits sum.splits)

lemma DiscoverDevices_try_cases:
  assumes "DiscoverDevices_try P flt ii idt s = Some (r, s')"
  obtains
    (construction) e where "r = Some e" "failing_stage P flt ii idt s = Some Construction"
      "devices s' = devices s" "\<not> HaveDevices s" "wmi_query s' = wmi_query s"
  | (enumeration) e where "r = Some e" "failing_stage P flt ii idt s = Some Enumeration"
      "devices s' = devices s" "HaveDevices s'"
  | (correlation) e where "r = Some e" "failing_stage P flt ii idt s = Some Correlation"
      "devices s' = devices s" "HaveDevices s'"
  | (resolution) e w en en' ds where "r = Some e" "failing_stage P flt ii idt s = Some Resolution"
      "EnumerateAdapters (dxcore P) flt ii idt en = (None, en')" "enumeration s' = Some en'"
      "GetDevicesForAdapters (wmi_service P) w (GetUniqueAdapters en') = Inr ds"
      "fill_all (drivers P) ds = Some (Some e, devices s')" "HaveDevices s'"
  | (success) w en en' ds where "r = None" "failing_stage P flt ii idt s = None"
      "EnumerateAdapters (dxcore P) flt ii idt en = (None, en')" "enumeration s' = Some en'"
      "GetDevicesForAdapters (wmi_service P) w (GetUniqueAdapters en') = Inr ds"
      "fill_all (drivers P) ds = Some (None, devices s')" "HaveDevices s'"
proof (cases "create_helpers P s")
  case (Pair r1 s1)
  note st = create_helpers_state [OF Pair]
  show ?thesis
  proof (cases r1)
    case (Some e1)
    with Pair assms st show ?thesis
      by (intro construction [of e1]) (auto simp: DiscoverDevices_try_def failing_stage_def)
  next
    case None
    note h = Pair [unfolded None]
    from st(3) None have have1: "HaveDevices s1" by simp
    then obtain en w where en: "enumeration s1 = Some en" and w: "wmi_query s1 = Some w"
      by (auto simp: HaveDevices_def)
    obtain r2 en' where ea: "EnumerateAdapters (dxcore P) flt ii idt en = (r2, en')"
      by (cases "EnumerateAdapters (dxcore P) flt ii idt en")
    show ?thesis
    proof (cases r2)
      case (Some e2)
      with h en w ea assms st have1 show ?thesis
        by (intro enumeration [of e2])
          (auto simp: DiscoverDevices_try_def failing_stage_def HaveDevices_def)
    next
      case None
      note ea = ea [unfolded None]
      show ?thesis
      proof (cases "GetDevicesForAdapters (wmi_service P) w (GetUniqueAdapters en')")
        case (Inl e3)
        with h en w ea assms st have1 show ?thesis
          by (intro correlation [of e3])
            (auto simp: DiscoverDevices_try_def failing_stage_def HaveDevices_def)
      next
        case (Inr ds)
        with h en w ea assms obtain r4 ds' where
          f: "fill_all (drivers P) ds = Some (r4, ds')" and
          r: "r = r4" and s': "s' = s1\<lparr>enumeration := Some en', devices := ds'\<rparr>"
          by (auto simp: DiscoverDevices_try_def split: option.splits)
        show ?thesis
        proof (cases r4)
          case None
          with h en w ea Inr f r s' have1 show ?thesis
            by (intro success [of en en' w ds])
              (auto simp: failing_stage_def HaveDevices_def)
        next
          case (Some e4)
          with h en w ea Inr f r s' have1 show ?thesis
            by (intro resolution [of e4 en en' w ds])
              (auto simp: failing_stage_def HaveDevices_def)
        qed
      qed
    qed
  qed
qed

lemma DiscoverDevices_Some:
  assumes "DiscoverDevices P flt ii idt s = Some (res, s')"
  shows "\<exists>r s1. DiscoverDevices_try P flt ii idt s = Some (r, s1) \<and>
    devices s' = devices s1 \<and> enumeration s' = enumeration s1 \<and>
    wmi_query s' = wmi_query s1 \<and>
    (res = Inr True \<longleftrightarrow> r = None) \<and>
    (res = Inr True \<longrightarrow> lastError s' = []) \<and>
    (res = Inr False \<longrightarrow> r \<noteq> None \<and> lastError s' \<noteq> [])"
proof -
  from assms obtain r s1 where t: "DiscoverDevices_try P flt ii idt s = Some (r, s1)"
    by (auto simp: DiscoverDevices_def split: option.splits)
  show ?thesis
  proof (cases r)
    case None
    with t assms show ?thesis
      by (auto simp: DiscoverDevices_def RETURN_SUCCESS_def)
  next
    case (Some e)
    from DiscoverDevices_try_not_runtime [OF t [unfolded Some]]
    have "is_runtime_error e = False" .
    with Some t assms show ?thesis
      by (cases e) (auto simp: DiscoverDevices_def RETURN_ERROR_def Pretty_def)
  qed
qed


section \<open>Lemmas about the accessors and the staleness check\<close>


lemma any_stale_valid:
  "any_stale stale (map Some ls) = Inr (\<exists>l \<in> set ls. stale l)"
  by (induction ls) auto

lemma any_stale_before_null:
  "\<exists>l \<in> set ls. stale l \<Longrightarrow> any_stale stale (map Some ls @ rest) = Inr True"
  by (induction ls) auto

lemma queried_attributes_not_empty: "queried_attributes flt \<noteq> []"
  by (simp add: queried_attributes_def)

section \<open>Lemmas about the runtime files of correlated devices\<close>

lemma check_throw_InrE:
  assumes "check_throw r at t k = Inr v"
  obtains x where "r = Done x" and "k x = Inr v"
  using assms by (cases r) (simp_all add: check_throw_def)

lemma process_properties_files:
  "process_properties wmi elements details = Inr d \<Longrightarrow>
   RuntimeFiles d = RuntimeFiles details \<and> RuntimeFilesWow64 d = RuntimeFilesWow64 details"
proof (induction elements arbitrary: details)
  case Nil
  then show ?case by simp
next
  case (Cons element elements)
  from Cons.prems obtain details' where
    "process_properties wmi elements details' = Inr d"
    "RuntimeFiles details' = RuntimeFiles details"
    "RuntimeFilesWow64 details' = RuntimeFilesWow64 details"
    by (auto elim!: check_throw_InrE
        split: reply.splits VARIANT.splits if_splits list.splits sum.splits)
  with Cons.IH [of details'] show ?case by simp
qed

lemma ExtractDeviceDetails_files:
  assumes "ExtractDeviceDetails wmi device = Inr d"
  shows "RuntimeFiles d = [] \<and> RuntimeFilesWow64 d = []"
proof -
  from assms obtain elements d0 where
    "process_properties wmi elements d0 = Inr d" "RuntimeFiles d0 = []" "RuntimeFilesWow64 d0 = []"
    unfolding ExtractDeviceDetails_def
    by (elim check_throw_InrE)
      (auto simp: Device_default_def elim!: check_throw_InrE
        split: deviceProperties_VARIANT.splits)
  with process_properties_files [of wmi elements d0 d] show ?thesis by simp
qed

lemma match_devices_files:
  "match_devices wmi adapters enumerator acc = Inr ds \<Longrightarrow>
   \<forall>d \<in> set acc. RuntimeFiles d = [] \<and> RuntimeFilesWow64 d = [] \<Longrightarrow>
   \<forall>d \<in> set ds. RuntimeFiles d = [] \<and> RuntimeFilesWow64 d = []"
proof (induction enumerator arbitrary: acc)
  case Nil
  then show ?case by simp
next
  case (Cons r rs)
  from Cons.prems(1) obtain entity details where
    r: "r = Done entity" and x: "ExtractDeviceDetails wmi entity = Inr details"
    by (auto simp: check_throw_def split: reply.splits sum.splits)
  note f = ExtractDeviceDetails_files [OF x]
  show ?case
  proof (cases "map_of adapters (InstanceLuid (DeviceAdapter details))")
    case None
    with Cons.prems r x have "match_devices wmi adapters rs acc = Inr ds"
      by (simp add: check_throw_def)
    from Cons.IH [OF this Cons.prems(2)] show ?thesis .
  next
    case (Some a)
    with Cons.prems r x have
      "match_devices wmi adapters rs (acc @ [details\<lparr>DeviceAdapter := a\<rparr>]) = Inr ds"
      by (simp add: check_throw_def)
    moreover from f Cons.prems(2) have
      "\<forall>d \<in> set (acc @ [details\<lparr>DeviceAdapter := a\<rparr>]).
         RuntimeFiles d = [] \<and> RuntimeFilesWow64 d = []"
      by simp
    ultimately show ?thesis by (rule Cons.IH)
  qed
qed

lemma GetDevicesForAdapters_files:
  assumes "GetDevicesForAdapters W wmi adapters = Inr ds" and "d \<in> set ds"
  shows "RuntimeFiles d = []" and "RuntimeFilesWow64 d = []"
proof -
  from assms(1) have "\<forall>d \<in> set ds. RuntimeFiles d = [] \<and> RuntimeFilesWow64 d = []"
    by (auto simp: GetDevicesForAdapters_def elim!: check_throw_InrE
        dest!: match_devices_files split: if_splits)
  with assms(2) show "RuntimeFiles d = []" and "RuntimeFilesWow64 d = []" by simp_all
qed

section \<open>The claims about the adapter enumeration\<close>

text \<open>
  Claim C3, as the code has it. After an enumeration pass that succeeds, the keys of the set
  of unique adapters are pairwise distinct, and the entry for an identifier is the first
  adapter, in the order of processing, among the surviving candidates with that
  identifier: \<^verbatim>\<open>std::map::insert\<close> does not replace an entry, so the first duplicate wins
  and not the last.
\<close>

theorem C3_first_write_wins:
  assumes "EnumerateAdapters X flt includeIntegrated includeDetachable en = (None, en')"
  shows "distinct (map fst (uniqueAdapters en')) \<and>
         (\<forall>k. map_of (uniqueAdapters en') k =
               find (\<lambda>details. InstanceLuid details = k)
                 (surviving flt includeIntegrated includeDetachable (candidates X flt)))"
proof -
  have u: "uniqueAdapters en' =
      insert_all (surviving flt includeIntegrated includeDetachable (candidates X flt)) []"
    using assms by (rule EnumerateAdapters_None)
  have "sorted_wrt (<) (map fst (uniqueAdapters en'))"
    unfolding u by (rule insert_all_sorted) simp
  then have "distinct (map fst (uniqueAdapters en'))"
    by (rule strict_sorted_distinct)
  moreover have "map_of (uniqueAdapters en') k =
      find (\<lambda>details. InstanceLuid details = k)
        (surviving flt includeIntegrated includeDetachable (candidates X flt))" for k
    unfolding u by (simp add: map_of_insert_all)
  ultimately show ?thesis by blast
qed

theorem C3_first_write_wins_witness:
  "EnumerateAdapters duplicate_dxcore DisplayAndCompute True True new_enumeration =
     (None, \<lparr>adapterLists = [Some [Done adapter_full], Some [Done adapter_duplicate]],
             uniqueAdapters = [(1, example_details 1 False True True)]\<rparr>) \<and>
   surviving DisplayAndCompute True True (candidates duplicate_dxcore DisplayAndCompute) =
     [example_details 1 False True True, example_details 1 True True True] \<and>
   distinct (map fst [(1::int, example_details 1 False True True)]) \<and>
   map_of [(1, example_details 1 False True True)] 1 = Some (example_details 1 False True True)"
proof -
  have run: "EnumerateAdapters duplicate_dxcore DisplayAndCompute True True new_enumeration =
     (None, \<lparr>adapterLists = [Some [Done adapter_full], Some [Done adapter_duplicate]],
             uniqueAdapters = [(1, example_details 1 False True True)]\<rparr>)"
    by (simp add: duplicate_dxcore_def adapter_duplicate_def example_defs enum_defs)
  have cands: "surviving DisplayAndCompute True True (candidates duplicate_dxcore DisplayAndCompute) =
     [example_details 1 False True True, example_details 1 True True True]"
    by (simp add: duplicate_dxcore_def adapter_duplicate_def example_defs enum_defs spec_defs)
  from C3_first_write_wins [OF run] run cands show ?thesis by simp
qed

text \<open>
  Claim C3 as it is stated fails: two surviving candidates with the identifier 1 are
  processed, a discrete adapter first and an integrated one last, and the single entry for
  the identifier has the fields of the first.
\<close>

theorem C3_counterexample:
  "surviving DisplayAndCompute True True (candidates duplicate_dxcore DisplayAndCompute) =
     [example_details 1 False True True, example_details 1 True True True] \<and>
   EnumerateAdapters duplicate_dxcore DisplayAndCompute True True new_enumeration =
     (None, \<lparr>adapterLists = [Some [Done adapter_full], Some [Done adapter_duplicate]],
             uniqueAdapters = [(1, example_details 1 False True True)]\<rparr>) \<and>
   example_details 1 False True True \<noteq> example_details 1 True True True"
  by (simp add: duplicate_dxcore_def adapter_duplicate_def example_defs enum_defs spec_defs)

text \<open>
  Claim C6. Whatever the outcome of the enumeration, the set of unique adapters holds no
  adapter that supports compute under \<open>DisplayOnly\<close>, none that supports display under
  \<open>ComputeOnly\<close>, and only adapters that support both under \<open>DisplayAndCompute\<close>. Under
  \<open>AllDevices\<close> all three lists are queried, and after a successful pass every hardware adapter
  of any list that passes the gates for integrated and detachable adapters has its
  identifier in the set, whatever its capabilities.
\<close>

theorem C6_filter_correctness:
  "(\<forall>(k, a) \<in> set (uniqueAdapters
        (snd (EnumerateAdapters X flt includeIntegrated includeDetachable en))).
      (flt = DisplayOnly \<longrightarrow> \<not> SupportsCompute a) \<and>
      (flt = ComputeOnly \<longrightarrow> \<not> SupportsDisplay a) \<and>
      (flt = DisplayAndCompute \<longrightarrow> SupportsDisplay a \<and> SupportsCompute a)) \<and>
   (EnumerateAdapters X AllDevices includeIntegrated includeDetachable en = (None, en') \<longrightarrow>
      (\<forall>attr l adapter details.
         CreateAdapterList X attr = Done l \<and> Done adapter \<in> set l \<and>
         ExtractAdapterDetails adapter = Inr details \<and> IsHardware details \<and>
         (IsIntegrated details \<longrightarrow> includeIntegrated) \<and>
         (IsDetachable details \<longrightarrow> includeDetachable) \<longrightarrow>
         InstanceLuid details \<in> fst ` set (uniqueAdapters en')))"
proof (intro conjI impI allI)
  show "\<forall>(k, a) \<in> set (uniqueAdapters
        (snd (EnumerateAdapters X flt includeIntegrated includeDetachable en))).
      (flt = DisplayOnly \<longrightarrow> \<not> SupportsCompute a) \<and>
      (flt = ComputeOnly \<longrightarrow> \<not> SupportsDisplay a) \<and>
      (flt = DisplayAndCompute \<longrightarrow> SupportsDisplay a \<and> SupportsCompute a)"
    by (rule EnumerateAdapters_all) (auto simp: survives_def filter_mismatch_def)
next
  fix attr l adapter details
  assume run: "EnumerateAdapters X AllDevices includeIntegrated includeDetachable en = (None, en')"
    and a: "CreateAdapterList X attr = Done l \<and> Done adapter \<in> set l \<and>
         ExtractAdapterDetails adapter = Inr details \<and> IsHardware details \<and>
         (IsIntegrated details \<longrightarrow> includeIntegrated) \<and>
         (IsDetachable details \<longrightarrow> includeDetachable)"
  have "attr \<in> set (queried_attributes AllDevices)"
    by (cases attr) (simp_all add: queried_attributes_def)
  with a have "Done adapter \<in> set (candidates X AllDevices)"
    by (auto simp: candidates_def intro!: bexI [of _ attr])
  moreover from a have "survives AllDevices includeIntegrated includeDetachable details"
    by (simp add: survives_def filter_mismatch_def)
  ultimately have "details \<in> set (surviving AllDevices includeIntegrated includeDetachable
      (candidates X AllDevices))"
    using a by (intro surviving_member) auto
  then show "InstanceLuid details \<in> fst ` set (uniqueAdapters en')"
    unfolding EnumerateAdapters_None(1) [OF run] fst_set_insert_all by simp
qed

theorem C6_filter_correctness_witness:
  "(3, example_details 3 False True False) \<in> set (uniqueAdapters
      (snd (EnumerateAdapters example_dxcore DisplayOnly True True new_enumeration))) \<and>
   \<not> SupportsCompute (example_details 3 False True False) \<and>
   (2, example_details 2 False False False) \<in> set (uniqueAdapters
      (snd (EnumerateAdapters example_dxcore ComputeOnly True True new_enumeration))) \<and>
   \<not> SupportsDisplay (example_details 2 False False False) \<and>
   (1, example_details 1 False True True) \<in> set (uniqueAdapters
      (snd (EnumerateAdapters example_dxcore DisplayAndCompute True True new_enumeration))) \<and>
   SupportsDisplay (example_details 1 False True True) \<and>
   SupportsCompute (example_details 1 False True True) \<and>
   fst (EnumerateAdapters example_dxcore AllDevices True True new_enumeration) = None \<and>
   CreateAdapterList example_dxcore DXCORE_ADAPTER_ATTRIBUTE_D3D12_CORE_COMPUTE =
     Done [Done adapter_full, Done adapter_compute] \<and>
   ExtractAdapterDetails adapter_compute = Inr (example_details 2 False False False) \<and>
   IsHardware (example_details 2 False False False) \<and>
   2 \<in> fst ` set (uniqueAdapters
      (snd (EnumerateAdapters example_dxcore AllDevices True True new_enumeration)))"
  using C6_filter_correctness [of example_dxcore DisplayOnly True True new_enumeration]
    C6_filter_correctness [of example_dxcore ComputeOnly True True new_enumeration]
    C6_filter_correctness [of example_dxcore DisplayAndCompute True True new_enumeration]
    C6_filter_correctness [of example_dxcore AllDevices True True new_enumeration
      "snd (EnumerateAdapters example_dxcore AllDevices True True new_enumeration)"]
  by (simp add: example_defs enum_defs)

text \<open>
  Claim C10. The details extracted from an adapter support display whenever they support
  compute, both flags being read from the Direct3D 12 graphics attribute; hence the set
  enumerated under \<open>ComputeOnly\<close>, which drops every adapter that supports display, never
  holds an adapter with \<open>SupportsCompute\<close>.
\<close>

theorem C10_compute_implies_display:
  "(ExtractAdapterDetails adapter = Inr details \<longrightarrow>
      (SupportsCompute details \<longrightarrow> SupportsDisplay details)) \<and>
   (\<forall>(k, a) \<in> set (uniqueAdapters
        (snd (EnumerateAdapters X ComputeOnly includeIntegrated includeDetachable en))).
      \<not> SupportsCompute a)"
proof (intro conjI impI)
  assume "ExtractAdapterDetails adapter = Inr details" and "SupportsCompute details"
  then show "SupportsDisplay details"
    by (simp add: ExtractAdapterDetails_flags)
next
  show "\<forall>(k, a) \<in> set (uniqueAdapters
        (snd (EnumerateAdapters X ComputeOnly includeIntegrated includeDetachable en))).
      \<not> SupportsCompute a"
    by (rule EnumerateAdapters_all)
      (auto simp: survives_def filter_mismatch_def dest: ExtractAdapterDetails_flags)
qed

theorem C10_compute_implies_display_witness:
  "ExtractAdapterDetails adapter_full = Inr (example_details 1 False True True) \<and>
   SupportsCompute (example_details 1 False True True) \<and>
   SupportsDisplay (example_details 1 False True True) \<and>
   (2, example_details 2 False False False) \<in> set (uniqueAdapters
        (snd (EnumerateAdapters example_dxcore ComputeOnly True True new_enumeration))) \<and>
   \<not> SupportsCompute (example_details 2 False False False)"
  using C10_compute_implies_display [of adapter_full "example_details 1 False True True"
      example_dxcore True True new_enumeration]
  by (simp add: example_defs enum_defs)

section \<open>The claims about the correlation\<close>

text \<open>
  Claim C7, as the code has it. When \<^verbatim>\<open>GetDevicesForAdapters\<close> returns, the device list is no
  longer than the sequence of PnP records that the query returned, the adapter record of
  every device is an entry of the adapter set given, and, the entries of the set being keyed
  by their own identifiers (as \<^verbatim>\<open>EnumerateAdapters\<close> builds them), the identifier of that
  adapter record is a key of the set. The list is not bounded by the size of the adapter
  set.
\<close>

theorem C7_correlation:
  assumes "GetDevicesForAdapters W wmi adapters = Inr ds"
  shows "length ds \<le> length (list_of_reply (ExecQuery W (build_query adapters))) \<and>
         (\<forall>d \<in> set ds. \<exists>k. map_of adapters k = Some (DeviceAdapter d)) \<and>
         ((\<forall>(k, a) \<in> set adapters. InstanceLuid a = k) \<longrightarrow>
          (\<forall>d \<in> set ds. InstanceLuid (DeviceAdapter d) \<in> fst ` set adapters))"
proof (cases "adapters = []")
  case True
  with assms show ?thesis by (simp add: GetDevicesForAdapters_def)
next
  case False
  with assms obtain enumerator where
    q: "ExecQuery W (build_query adapters) = Done enumerator" and
    m: "match_devices wmi adapters enumerator [] = Inr ds"
    by (auto simp: GetDevicesForAdapters_def check_throw_def split: reply.splits)
  from match_devices_result [OF m] have
    len: "length ds \<le> length enumerator" and
    ent: "\<forall>d \<in> set ds. \<exists>k. map_of adapters k = Some (DeviceAdapter d)"
    by auto
  have "InstanceLuid (DeviceAdapter d) \<in> fst ` set adapters"
    if keyed: "\<forall>(k, a) \<in> set adapters. InstanceLuid a = k" and d: "d \<in> set ds" for d
  proof -
    from ent d obtain k where "map_of adapters k = Some (DeviceAdapter d)" by blast
    then have "(k, DeviceAdapter d) \<in> set adapters" by (rule map_of_SomeD)
    with keyed show ?thesis by force
  qed
  with len ent q show ?thesis by simp
qed

theorem C7_correlation_witness:
  "GetDevicesForAdapters
     (example_wmi [Done (example_entity ''PCI-A'' (VT_I8 1)), Done (example_entity ''PCI-B'' (VT_I8 5))])
     example_wmi_query [(1, example_details 1 False True True)] =
     Inr [example_device ''PCI-A'' (example_details 1 False True True)] \<and>
   length [example_device ''PCI-A'' (example_details 1 False True True)] \<le> (2::nat) \<and>
   map_of [(1, example_details 1 False True True)] 1 = Some (example_details 1 False True True) \<and>
   InstanceLuid (example_details 1 False True True) = 1"
proof -
  have run: "GetDevicesForAdapters
     (example_wmi [Done (example_entity ''PCI-A'' (VT_I8 1)), Done (example_entity ''PCI-B'' (VT_I8 5))])
     example_wmi_query [(1, example_details 1 False True True)] =
     Inr [example_device ''PCI-A'' (example_details 1 False True True)]"
    by (simp add: wmi_defs wmi_example_defs)
  from C7_correlation [OF run] run show ?thesis
    by (simp add: example_details_def)
qed

text \<open>
  Claim C7 as it is stated fails: the backend returns two PnP records that report the
  identifier of the same adapter, one as an integer and one as a string, and the device list
  has two elements for an adapter set of one.
\<close>

theorem C7_counterexample:
  "GetDevicesForAdapters
     (example_wmi [Done (example_entity ''PCI-A'' (VT_I8 1)),
                   Done (example_entity ''PCI-B'' (VT_BSTR ''1''))])
     example_wmi_query [(1, example_details 1 False True True)] =
     Inr [example_device ''PCI-A'' (example_details 1 False True True),
          example_device ''PCI-B'' (example_details 1 False True True)] \<and>
   length [(1::int, example_details 1 False True True)] <
   length [example_device ''PCI-A'' (example_details 1 False True True),
           example_device ''PCI-B'' (example_details 1 False True True)]"
  by (simp add: wmi_defs wmi_example_defs)

text \<open>
  Claim C2 fails on the code. The PnP record reports its adapter identifier as the string
  "not a number"; \<^verbatim>\<open>std::stoll\<close> throws \<^verbatim>\<open>std::invalid_argument\<close>, neither handler of
  \<^verbatim>\<open>DiscoverDevices\<close> catches it, and it leaves the exported function
  \<^verbatim>\<open>DeviceDiscovery_DiscoverDevices\<close> instead of the sentinel.
\<close>

theorem C2_exception_propagates:
  "map_option fst
     (DeviceDiscovery_DiscoverDevices
        (example_platform [Done (example_entity ''PCI-A'' (VT_BSTR ''not a number''))])
        0 1 1 CreateDeviceDiscoveryInstance) =
   Some (Inl invalid_argument)"
  by (simp add: session_defs example_platform_def example_defs enum_defs wmi_defs
      wmi_example_defs DevPropKeyToString_AdapterLuid)

section \<open>The claims about the driver details\<close>

text \<open>
  Claim C8. When \<^verbatim>\<open>FillDriverDetails\<close> returns for a device whose two lists of runtime files
  have pairwise distinct destination filenames (both lists are empty for a device that
  \<^verbatim>\<open>ExtractDeviceDetails\<close> has made), each list still has pairwise distinct destination
  filenames and begins with the entries it had. When the sub-keys have been processed, the
  entry of a list for a destination filename is the first entry with that filename in the
  sequence of the old list followed by the entries of the two sub-keys of the list, in the
  order of processing: a later entry with the same filename is dropped.
\<close>

theorem C8_runtime_file_dedup:
  assumes "FillDriverDetails K device = Some (r, resolved)"
    and "distinct (map DestinationFilename (RuntimeFiles device))"
    and "distinct (map DestinationFilename (RuntimeFilesWow64 device))"
  shows "distinct (map DestinationFilename (RuntimeFiles resolved)) \<and>
         distinct (map DestinationFilename (RuntimeFilesWow64 resolved)) \<and>
         prefix (RuntimeFiles device) (RuntimeFiles resolved) \<and>
         prefix (RuntimeFilesWow64 device) (RuntimeFilesWow64 resolved) \<and>
         (r = None \<and> \<not> contains ''HostDriverStore'' (DriverStorePath resolved) \<longrightarrow>
            (\<forall>n. find (\<lambda>f. DestinationFilename f = n) (RuntimeFiles resolved) =
                  find (\<lambda>f. DestinationFilename f = n)
                    (RuntimeFiles device @ registry_entries K device ''CopyToVmOverwrite''
                       @ registry_entries K device ''CopyToVmWhenNewer'')) \<and>
            (\<forall>n. find (\<lambda>f. DestinationFilename f = n) (RuntimeFilesWow64 resolved) =
                  find (\<lambda>f. DestinationFilename f = n)
                    (RuntimeFilesWow64 device @ registry_entries K device ''CopyToVmOverwriteWow64''
                       @ registry_entries K device ''CopyToVmWhenNewerWow64'')))"
proof -
  let ?e = "registry_entries K device ''CopyToVmOverwrite''
              @ registry_entries K device ''CopyToVmWhenNewer''"
  let ?w = "registry_entries K device ''CopyToVmOverwriteWow64''
              @ registry_entries K device ''CopyToVmWhenNewerWow64''"
  consider
    (unchanged) "RuntimeFiles resolved = RuntimeFiles device"
      "RuntimeFilesWow64 resolved = RuntimeFilesWow64 device"
      "r \<noteq> None \<or> contains ''HostDriverStore'' (DriverStorePath resolved)"
  | (processed) "RuntimeFiles resolved = add_unique ?e (RuntimeFiles device)"
      "RuntimeFilesWow64 resolved = add_unique ?w (RuntimeFilesWow64 device)"
    using assms(1)
    by (auto simp: FillDriverDetails_def Let_def process_all_runtime_files_eq
        registry_entries_update split: reply.splits option.splits sum.splits if_splits)
  then show ?thesis
  proof cases
    case unchanged
    with assms(2,3) show ?thesis by auto
  next
    case processed
    with assms(2,3) show ?thesis
      by (simp add: add_unique_distinct add_unique_prefix find_add_unique)
  qed
qed

theorem C8_runtime_file_dedup_witness:
  "FillDriverDetails example_drivers
     (example_device ''PCI-A'' (example_details 1 False True True)) = Some (None, example_resolved) \<and>
   distinct (map DestinationFilename
     (RuntimeFiles (example_device ''PCI-A'' (example_details 1 False True True)))) \<and>
   distinct (map DestinationFilename
     (RuntimeFilesWow64 (example_device ''PCI-A'' (example_details 1 False True True)))) \<and>
   \<not> contains ''HostDriverStore'' (DriverStorePath example_resolved) \<and>
   RuntimeFiles example_resolved = example_files \<and>
   distinct (map DestinationFilename example_files) \<and>
   registry_entries example_drivers (example_device ''PCI-A'' (example_details 1 False True True))
     ''CopyToVmOverwrite''
   @ registry_entries example_drivers (example_device ''PCI-A'' (example_details 1 False True True))
     ''CopyToVmWhenNewer'' =
     [\<lparr>SourcePath = ''nvcuda_loader64.dll'', DestinationFilename = ''nvcuda.dll''\<rparr>,
      \<lparr>SourcePath = ''nvml_loader.dll'', DestinationFilename = ''nvml.dll''\<rparr>,
      \<lparr>SourcePath = ''compat'' @ [backslash] @ ''nvcuda.dll'', DestinationFilename = ''nvcuda.dll''\<rparr>,
      \<lparr>SourcePath = ''nvEncodeAPI64.dll'', DestinationFilename = ''nvEncodeAPI64.dll''\<rparr>] \<and>
   find (\<lambda>f. DestinationFilename f = ''nvcuda.dll'') (RuntimeFiles example_resolved) =
     Some \<lparr>SourcePath = ''nvcuda_loader64.dll'', DestinationFilename = ''nvcuda.dll''\<rparr>"
proof -
  have c: "\<not> contains ''HostDriverStore'' (DriverStorePath example_resolved)"
    by (simp add: example_resolved_def backslash_def)
  have d: "distinct (map DestinationFilename
      (RuntimeFiles (example_device ''PCI-A'' (example_details 1 False True True))))"
    "distinct (map DestinationFilename
      (RuntimeFilesWow64 (example_device ''PCI-A'' (example_details 1 False True True))))"
    by (simp_all add: example_device_def)
  from C8_runtime_file_dedup [OF FillDriverDetails_example d] c d FillDriverDetails_example
  show ?thesis
    by (simp add: registry_entries_example example_resolved_def example_files_def)
qed



section \<open>The claims about the discovery session\<close>







text \<open>
  Claim C5, as the code has it. \<^verbatim>\<open>IsRefreshRequired\<close> returns true in a session whose two
  helper objects have not both been created. Right after a successful call of
  \<^verbatim>\<open>DiscoverDevices\<close> it returns whether one of the adapter lists created by that call, one
  for each attribute the filter asks for, reports staleness; so it returns false when none
  does. In a session with its helper objects it returns true when one of the adapter lists
  before the first null entry reports staleness.
\<close>

theorem C5_refresh_required:
  "(\<not> HaveDevices s \<longrightarrow> IsRefreshRequired stale s = Inr True) \<and>
   (DiscoverDevices P flt includeIntegrated includeDetachable s = Some (Inr True, s') \<longrightarrow>
      IsRefreshRequired stale s' =
        Inr (\<exists>attr \<in> set (queried_attributes flt).
               stale (list_of_reply (CreateAdapterList (dxcore P) attr)))) \<and>
   (HaveDevices s \<and> enumeration s = Some en \<and> adapterLists en = map Some ls @ rest \<and>
    (\<exists>l \<in> set ls. stale l) \<longrightarrow> IsRefreshRequired stale s = Inr True)"
proof -
  have 1: "\<not> HaveDevices s \<longrightarrow> IsRefreshRequired stale s = Inr True"
    by (simp add: IsRefreshRequired_def)
  have 2: "DiscoverDevices P flt includeIntegrated includeDetachable s = Some (Inr True, s') \<longrightarrow>
      IsRefreshRequired stale s' =
        Inr (\<exists>attr \<in> set (queried_attributes flt).
               stale (list_of_reply (CreateAdapterList (dxcore P) attr)))"
  proof
    assume run: "DiscoverDevices P flt includeIntegrated includeDetachable s = Some (Inr True, s')"
    from DiscoverDevices_Some [OF run] obtain r1 s1 where
      t: "DiscoverDevices_try P flt includeIntegrated includeDetachable s = Some (r1, s1)" and
      e: "enumeration s' = enumeration s1" and w: "wmi_query s' = wmi_query s1" and
      r1: "r1 = None"
      by auto
    from t r1 obtain en en' where
      ea: "EnumerateAdapters (dxcore P) flt includeIntegrated includeDetachable en = (None, en')"
      and en': "enumeration s1 = Some en'" and h: "HaveDevices s1"
      by (cases rule: DiscoverDevices_try_cases) simp_all
    from h e w have h': "HaveDevices s'" by (simp add: HaveDevices_def)
    have lists: "adapterLists en' =
        map Some (map (\<lambda>attr. list_of_reply (CreateAdapterList (dxcore P) attr))
          (queried_attributes flt))"
      using EnumerateAdapters_None(2) [OF ea] by simp
    from lists queried_attributes_not_empty [of flt] have "adapterLists en' \<noteq> []"
      by simp
    moreover have "any_stale stale (adapterLists en') =
        Inr (\<exists>attr \<in> set (queried_attributes flt).
               stale (list_of_reply (CreateAdapterList (dxcore P) attr)))"
      unfolding lists any_stale_valid by simp
    ultimately show "IsRefreshRequired stale s' =
        Inr (\<exists>attr \<in> set (queried_attributes flt).
               stale (list_of_reply (CreateAdapterList (dxcore P) attr)))"
      using h' e en' by (simp add: IsRefreshRequired_def IsStale_def)
  qed
  have 3: "HaveDevices s \<and> enumeration s = Some en \<and> adapterLists en = map Some ls @ rest \<and>
    (\<exists>l \<in> set ls. stale l) \<longrightarrow> IsRefreshRequired stale s = Inr True"
    by (auto simp: IsRefreshRequired_def IsStale_def any_stale_before_null)
  show ?thesis
    by (rule conjI [OF 1 conjI [OF 2 3]])
qed

theorem C5_refresh_required_witness:
  "\<not> HaveDevices CreateDeviceDiscoveryInstance \<and>
   IsRefreshRequired (\<lambda>l. False) CreateDeviceDiscoveryInstance = Inr True \<and>
   DiscoverDevices discovery_platform AllDevices True True CreateDeviceDiscoveryInstance =
     Some (Inr True, ready_session) \<and>
   IsRefreshRequired (\<lambda>l. False) ready_session = Inr False \<and>
   IsRefreshRequired (\<lambda>l. length l = 1) ready_session = Inr True \<and>
   HaveDevices ready_session \<and> enumeration ready_session = Some ready_enumeration \<and>
   adapterLists ready_enumeration =
     map Some [[Done adapter_legacy, Done adapter_full], [Done adapter_full],
               [Done adapter_full, Done adapter_compute]] @ []"
proof -
  have fresh: "\<not> HaveDevices CreateDeviceDiscoveryInstance"
    by (simp add: HaveDevices_def CreateDeviceDiscoveryInstance_def)
  have ready: "HaveDevices ready_session" "enumeration ready_session = Some ready_enumeration"
    "adapterLists ready_enumeration =
     map Some [[Done adapter_legacy, Done adapter_full], [Done adapter_full],
               [Done adapter_full, Done adapter_compute]] @ []"
    by (simp_all add: HaveDevices_def ready_session_def ready_enumeration_def)
  note a = C5_refresh_required
    [where s = CreateDeviceDiscoveryInstance and stale = "\<lambda>l. False" and P = discovery_platform
      and flt = AllDevices and includeIntegrated = True and includeDetachable = True
      and s' = ready_session]
  note b = C5_refresh_required
    [where s = ready_session and stale = "\<lambda>l. length l = 1" and en = ready_enumeration
      and ls = "[[Done adapter_legacy, Done adapter_full], [Done adapter_full],
               [Done adapter_full, Done adapter_compute]]" and rest = "[]"]
  from a b fresh ready discover_runs(1) show ?thesis
    by simp
qed

text \<open>
  Claim C5 as stated fails in its first part: after a call of \<^verbatim>\<open>DiscoverDevices\<close> that failed
  in the resolution of the driver details, in a session where no call ever succeeded,
  \<^verbatim>\<open>IsRefreshRequired\<close> returns false when no adapter list reports staleness.
\<close>

theorem C5_counterexample:
  "DiscoverDevices resolution_failure_platform AllDevices True True
     CreateDeviceDiscoveryInstance = Some (Inr False, failed_session) \<and>
   IsRefreshRequired (\<lambda>l. False) failed_session = Inr False"
  by (simp add: discover_runs)
    (simp add: IsRefreshRequired_def IsStale_def HaveDevices_def failed_session_def
      ready_enumeration_def)

end
